theory Spec2Isabelle
  imports Main "HOL-Library.Word"
begin

section \<open>Vulkan operator dispatch (VulkanOps.cpp): data model\<close>

text \<open>
  A \<open>float\<close> is the bit pattern of a 32-bit IEEE value: the functions modelled here copy
  floats and never compute with them. \<open>memset(p, 0, n)\<close> produces the pattern \<open>0\<close>.
  A cell of freshly allocated device memory holds no determinate value (\<open>None\<close>) until
  it is written.
\<close>

type_synonym float = "32 word"
type_synonym cell = "float option"

text \<open>
  \<open>TORCH_INTERNAL_ASSERT(cond, msg)\<close> aborts the call; the failure reports the text of
  the asserted expression and the message (empty where the source gives none). An access
  outside an array and a division by zero have no defined behaviour in C++; the model
  reports them as \<open>UndefinedBehaviour\<close> with the name of the operation.
\<close>

datatype error = InternalAssert string string | UndefinedBehaviour string

definition TORCH_INTERNAL_ASSERT :: "bool \<Rightarrow> string \<Rightarrow> string \<Rightarrow> (error + 'a) \<Rightarrow> error + 'a" where
  "TORCH_INTERNAL_ASSERT cond expr msg rest =
     (if cond then rest else Inl (InternalAssert expr msg))"

definition bind_result :: "error + 'a \<Rightarrow> ('a \<Rightarrow> error + 'b) \<Rightarrow> error + 'b" where
  "bind_result m f = (case m of Inl e \<Rightarrow> Inl e | Inr x \<Rightarrow> f x)"

subsection \<open>Macros of VulkanCommon.h\<close>

text \<open>
  Modelled from the spec: the macros \<open>UP_DIV\<close>, \<open>ROUND_UP\<close> and \<open>ALIGN_UP4\<close> are
  declared in VulkanCommon.h, which is not among the sources. \<open>UP_DIV(x, y)\<close> is the
  spec's \<open>ceil(x / y)\<close> (the channel-block count is \<open>ceil(channels / 4)\<close>);
  \<open>ROUND_UP(x, y)\<close> is the next multiple of \<open>y\<close> and \<open>ALIGN_UP4(x)\<close> is
  \<open>ROUND_UP(x, 4)\<close>, so that the repacked buffer of
  \<open>ALIGN_UP4(OC) * ALIGN_UP4(C) * KH * KW\<close> floats holds one 16-float block per
  \<open>(ceil(C/4), ceil(OC/4), KH*KW)\<close> coordinate.

  Extents (tensor sizes, channel counts, kernel sizes, strides) are natural numbers
  throughout, as in the spec's data model; on them the truncating division of C++ is
  \<open>div\<close>. Where the source narrows a value to 32 bits the narrowing is written out.
\<close>

definition UP_DIV :: "nat \<Rightarrow> nat \<Rightarrow> nat" where
  "UP_DIV x y = (x + y - 1) div y"

definition ROUND_UP :: "nat \<Rightarrow> nat \<Rightarrow> nat" where
  "ROUND_UP x y = (x + y - 1) div y * y"

definition ALIGN_UP4 :: "nat \<Rightarrow> nat" where
  "ALIGN_UP4 x = ROUND_UP x 4"

definition INT_MAX :: nat where
  "INT_MAX = 2147483647"

section \<open>Weight repacking: kernelNCHW_OCHW_repack_O4C4HWi4o4\<close>

text \<open>
  A \<open>for (int i = 0; i < n; ++i)\<close> loop whose body may fail runs the body over
  \<open>[0..<n]\<close> and stops at the first failure; a range-based \<open>for\<close> runs it over
  the elements.
\<close>

primrec for_each :: "('i \<Rightarrow> 's \<Rightarrow> error + 's) \<Rightarrow> 'i list \<Rightarrow> 's \<Rightarrow> error + 's" where
  "for_each body [] s = Inr s"
| "for_each body (i # is) s =
     (case body i s of Inl e \<Rightarrow> Inl e | Inr s' \<Rightarrow> for_each body is s')"

definition load_float :: "float list \<Rightarrow> nat \<Rightarrow> error + float" where
  "load_float src i = (if i < length src then Inr (src ! i) else Inl (UndefinedBehaviour ''read of src''))"

definition store_float :: "cell list \<Rightarrow> nat \<Rightarrow> float \<Rightarrow> error + cell list" where
  "store_float mem i v =
     (if i < length mem then Inr (mem[i := Some v]) else Inl (UndefinedBehaviour ''write to dst''))"

text \<open>
  The loop state is the mapped memory of \<open>kernelBuffer\<close> (offsets count floats from
  \<open>basePtr\<close>) and the read index \<open>ridx\<close>. One definition per loop, innermost first:
  \<open>dst_kx[4 * ic_4_i + oc_4_i] = src[ridx++]\<close>.
\<close>

definition repack_kx ::
  "float list \<Rightarrow> nat \<Rightarrow> nat \<Rightarrow> nat \<Rightarrow> nat \<Rightarrow> cell list \<times> nat \<Rightarrow> error + cell list \<times> nat" where
  "repack_kx src dst_ky ic_4_i oc_4_i kx st =
     (case st of (mem, ridx) \<Rightarrow>
        let dst_kx = dst_ky + kx * 16 in
        (case load_float src ridx of
           Inl e \<Rightarrow> Inl e
         | Inr v \<Rightarrow>
             (case store_float mem (dst_kx + (4 * ic_4_i + oc_4_i)) v of
                Inl e \<Rightarrow> Inl e
              | Inr mem' \<Rightarrow> Inr (mem', ridx + 1))))"

definition repack_ky ::
  "float list \<Rightarrow> nat \<Rightarrow> nat \<Rightarrow> nat \<Rightarrow> nat \<Rightarrow> nat \<Rightarrow> cell list \<times> nat \<Rightarrow> error + cell list \<times> nat" where
  "repack_ky src KW dst_ic ic_4_i oc_4_i ky st =
     (let dst_ky = dst_ic + ky * KW * 16
      in for_each (repack_kx src dst_ky ic_4_i oc_4_i) [0..<KW] st)"

definition repack_ic ::
  "float list \<Rightarrow> nat \<Rightarrow> nat \<Rightarrow> nat \<Rightarrow> nat \<Rightarrow> nat \<Rightarrow> cell list \<times> nat \<Rightarrow> error + cell list \<times> nat" where
  "repack_ic src KH KW dst_oc oc_4_i ic st =
     (let ic_4 = ic div 4;
          ic_4_i = ic mod 4;
          dst_ic = dst_oc + ic_4 * KW * KH * 16
      in for_each (repack_ky src KW dst_ic ic_4_i oc_4_i) [0..<KH] st)"

definition repack_oc ::
  "float list \<Rightarrow> nat \<Rightarrow> nat \<Rightarrow> nat \<Rightarrow> nat \<Rightarrow> nat \<Rightarrow> cell list \<times> nat \<Rightarrow> error + cell list \<times> nat" where
  "repack_oc src C KH KW oc_4SizeNumel oc st =
     (let oc_4 = oc div 4;
          oc_4_i = oc mod 4;
          dst_oc = oc_4 * oc_4SizeNumel
      in for_each (repack_ic src KH KW dst_oc oc_4_i) [0..<C] st)"

text \<open>
  \<open>mapped\<close> says whether \<open>mappedMemory.ptr()\<close> is non-null. When it is null the
  function writes nothing and returns the buffer as allocated. The arithmetic of the
  source is on \<open>int\<close>; the model computes with unbounded naturals and is the source's
  result where no \<open>int\<close> computation overflows (\<open>int_arith_exact\<close> below is
  sufficient for that).
\<close>

definition kernelNCHW_OCHW_repack_O4C4HWi4o4 ::
  "bool \<Rightarrow> float list \<Rightarrow> nat \<Rightarrow> nat \<Rightarrow> nat \<Rightarrow> nat \<Rightarrow> error + cell list" where
  "kernelNCHW_OCHW_repack_O4C4HWi4o4 mapped weights OC C KH KW =
     (let C_4 = UP_DIV C 4;
          kBufSizeNumel = ALIGN_UP4 OC * ALIGN_UP4 C * KH * KW;
          kernelBuffer = replicate kBufSizeNumel None;
          oc_4SizeNumel = KW * KH * C_4 * 16
      in if mapped then
           (case for_each (repack_oc weights C KH KW oc_4SizeNumel) [0..<OC]
                   (replicate kBufSizeNumel (Some 0), 0) of
              Inl e \<Rightarrow> Inl e
            | Inr (mem, ridx) \<Rightarrow> Inr mem)
         else Inr kernelBuffer)"

definition int_arith_exact :: "nat \<Rightarrow> nat \<Rightarrow> nat \<Rightarrow> nat \<Rightarrow> bool" where
  "int_arith_exact OC C KH KW \<longleftrightarrow>
     max 4 (ALIGN_UP4 OC) * max 4 (ALIGN_UP4 C) * max 1 KH * max 1 KW \<le> INT_MAX"

subsection \<open>The layout in the spec's words\<close>

text \<open>
  The dense buffer is row-major \<open>[OC, C, KH, KW]\<close>. The packed buffer is a sequence of
  16-float blocks; the block at coordinates \<open>(x, y, z)\<close> of a \<open>(C_4, OC_4, KH * KW)\<close>
  grid is block number \<open>(y * C_4 + x) * (KH * KW) + z\<close>. The weight \<open>(oc, ic, ky, kx)\<close>
  belongs to lane \<open>4 * (ic mod 4) + oc mod 4\<close> of the block at
  \<open>(ic div 4, oc div 4, ky * KW + kx)\<close>.
\<close>

definition dense_index :: "nat \<Rightarrow> nat \<Rightarrow> nat \<Rightarrow> nat \<Rightarrow> nat \<Rightarrow> nat \<Rightarrow> nat \<Rightarrow> nat" where
  "dense_index C KH KW oc ic ky kx = ((oc * C + ic) * KH + ky) * KW + kx"

definition block_number :: "nat \<Rightarrow> nat \<Rightarrow> nat \<Rightarrow> nat \<times> nat \<times> nat \<Rightarrow> nat" where
  "block_number C_4 KH KW p = (case p of (x, y, z) \<Rightarrow> (y * C_4 + x) * (KH * KW) + z)"

definition packed_index :: "nat \<Rightarrow> nat \<Rightarrow> nat \<Rightarrow> nat \<Rightarrow> nat \<Rightarrow> nat \<Rightarrow> nat \<Rightarrow> nat" where
  "packed_index C KH KW oc ic ky kx =
     16 * block_number (UP_DIV C 4) KH KW (ic div 4, oc div 4, ky * KW + kx)
       + (4 * (ic mod 4) + oc mod 4)"

text \<open>
  Unpacking by the inverse index arithmetic: the dense sequence read back, in
  \<open>[OC, C, KH, KW]\<close> order, from the lanes the layout assigns.
\<close>

definition unpack_O4C4HWi4o4 :: "cell list \<Rightarrow> nat \<Rightarrow> nat \<Rightarrow> nat \<Rightarrow> nat \<Rightarrow> cell list" where
  "unpack_O4C4HWi4o4 mem OC C KH KW =
     concat (map (\<lambda>oc. concat (map (\<lambda>ic. concat (map (\<lambda>ky.
       map (\<lambda>kx. mem ! packed_index C KH KW oc ic ky kx) [0..<KW])
         [0..<KH])) [0..<C])) [0..<OC])"

text \<open>The coordinates a packed offset decodes to, for the zero-padding statement.\<close>

definition packed_oc :: "nat \<Rightarrow> nat \<Rightarrow> nat \<Rightarrow> nat \<Rightarrow> nat" where
  "packed_oc C KH KW j = 4 * (j div 16 div (KH * KW) div UP_DIV C 4) + j mod 4"

definition packed_ic :: "nat \<Rightarrow> nat \<Rightarrow> nat \<Rightarrow> nat \<Rightarrow> nat" where
  "packed_ic C KH KW j = 4 * (j div 16 div (KH * KW) mod UP_DIV C 4) + j mod 16 div 4"

text \<open>A sequence of stores, in order: the effect of the loops, written out.\<close>

primrec scatter :: "(nat \<times> float) list \<Rightarrow> cell list \<Rightarrow> error + cell list" where
  "scatter [] mem = Inr mem"
| "scatter (w # ws) mem =
     (case store_float mem (fst w) (snd w) of Inl e \<Rightarrow> Inl e | Inr mem' \<Rightarrow> scatter ws mem')"

text \<open>
  The stores of one iteration of each loop, as lists: \<open>r\<close> is the value of \<open>ridx\<close>
  when the enclosing loop starts.
\<close>

definition with_ridx :: "nat \<Rightarrow> error + cell list \<Rightarrow> error + cell list \<times> nat" where
  "with_ridx r res = (case res of Inl e \<Rightarrow> Inl e | Inr m \<Rightarrow> Inr (m, r))"

definition writes_ky :: "float list \<Rightarrow> nat \<Rightarrow> nat \<Rightarrow> nat \<Rightarrow> nat \<Rightarrow> nat \<Rightarrow> nat \<Rightarrow> (nat \<times> float) list" where
  "writes_ky src KW dst_ic a b r ky =
     concat (map (\<lambda>kx. [(dst_ic + ky * KW * 16 + kx * 16 + (4 * a + b), src ! (r + ky * KW + kx))]) [0..<KW])"

definition writes_ic :: "float list \<Rightarrow> nat \<Rightarrow> nat \<Rightarrow> nat \<Rightarrow> nat \<Rightarrow> nat \<Rightarrow> nat \<Rightarrow> (nat \<times> float) list" where
  "writes_ic src KH KW dst_oc b r ic =
     concat (map (writes_ky src KW (dst_oc + ic div 4 * KW * KH * 16) (ic mod 4) b
                    (r + ic * (KH * KW))) [0..<KH])"

definition writes_oc :: "float list \<Rightarrow> nat \<Rightarrow> nat \<Rightarrow> nat \<Rightarrow> nat \<Rightarrow> nat \<Rightarrow> (nat \<times> float) list" where
  "writes_oc src C KH KW sz oc =
     concat (map (writes_ic src KH KW (oc div 4 * sz) (oc mod 4) (oc * (C * (KH * KW)))) [0..<C])"


section \<open>Device objects and recorded dispatches\<close>

text \<open>
  Modelled from the spec: the classes \<open>VImage\<close>, \<open>VBuffer\<close>, \<open>VulkanTensor\<close> and
  \<open>ComputeUnit\<close> and the struct \<open>Conv2DParams\<close> are declared in Vulkan.h and
  VulkanConvolution.h, which are not among the sources. The model keeps what the
  operators of VulkanOps.cpp use of them. An image is a handle with its 3-D size; a
  buffer is the buffer of a tensor, a uniform constant block (its 32-bit fields in
  declaration order), or a buffer the call creates itself (its size in bytes and its
  floats). A tensor handle has its logical sizes and its image.
\<close>

record VImage =
  image_id :: nat
  image_sizes :: "nat \<times> nat \<times> nat"

datatype VBuffer =
    TensorBuffer nat
  | UniformConstBuffer "32 word list"
  | DeviceBuffer nat "cell list"

record VulkanTensor =
  tensor_id :: nat
  sizes :: "nat list"
  image_of :: VImage

definition buffer_of :: "VulkanTensor \<Rightarrow> VBuffer" where
  "buffer_of t = TensorBuffer (tensor_id t)"

definition dim :: "VulkanTensor \<Rightarrow> nat" where
  "dim t = length (sizes t)"

definition numel :: "VulkanTensor \<Rightarrow> nat" where
  "numel t = prod_list (sizes t)"

text \<open>
  The device context: the limit \<open>bufferFromOptionalHostData\<close> reads, whether mapping a
  host-visible buffer yields a pointer, and the handle the next image created by a call
  receives.
\<close>

record VContext =
  minStorageBufferOffsetAlignment :: nat
  map_ok :: bool
  new_image_id :: nat

record Conv2DParams =
  params_C :: nat
  params_H :: nat
  params_W :: nat
  params_OC :: nat
  params_OH :: nat
  params_OW :: nat
  params_KH :: nat
  params_KW :: nat
  params_PY :: nat
  params_PX :: nat
  params_SY :: nat
  params_SX :: nat
  params_DY :: nat
  params_DX :: nat
  params_G :: nat
  params_OC_4 :: nat
  params_C_4 :: nat

datatype VkDescriptorType =
    VK_DESCRIPTOR_TYPE_STORAGE_IMAGE
  | VK_DESCRIPTOR_TYPE_COMBINED_IMAGE_SAMPLER
  | VK_DESCRIPTOR_TYPE_STORAGE_BUFFER
  | VK_DESCRIPTOR_TYPE_UNIFORM_BUFFER

text \<open>
  What a call binds into its descriptor set (\<open>bindStorageImage\<close>, \<open>bindShaderRead\<close>,
  \<open>VBuffer::bind\<close>), each with the binding index passed, and what it records into the
  command buffer between \<open>createCommandBuffer\<close> and \<open>endCommandBuffer\<close>, in order.
  \<open>dispatchCommandBuffer\<close> is called either with an extent and the work-group size or
  with group counts alone.
\<close>

datatype binding =
    BindStorageImage VImage
  | BindShaderRead VImage
  | BindBuffer VBuffer

datatype command =
    AddImageMemoryBarrierToGeneral VImage
  | AddImageMemoryBarrierToShaderRead VImage
  | AddBufferMemoryBarrier VBuffer nat nat
  | AddMemoryBarrier string string string string
  | DispatchCommandBuffer nat nat nat "(nat \<times> nat \<times> nat) option"

record ComputeUnit =
  descriptorTypes :: "VkDescriptorType list"
  descriptorSet :: "(nat \<times> binding) list"
  shader :: string
  workGroupSize :: "nat \<times> nat \<times> nat"
  commandBuffer :: "command list"

definition makeUniformConstBuffer :: "32 word list \<Rightarrow> VBuffer" where
  "makeUniformConstBuffer cb = UniformConstBuffer cb"

text \<open>Narrowing to \<open>int32_t\<close> (a field of a constant block) and to \<open>uint32_t\<close>.\<close>

definition i32 :: "nat \<Rightarrow> 32 word" where
  "i32 n = of_nat n"

definition u32 :: "nat \<Rightarrow> nat" where
  "u32 n = n mod 2 ^ 32"

text \<open>\<open>sizes[i]\<close> on the vector of sizes: no bounds check in the source.\<close>

definition size_at :: "nat list \<Rightarrow> nat \<Rightarrow> error + nat" where
  "size_at s i = (if i < length s then Inr (s ! i) else Inl (UndefinedBehaviour ''sizes[i]''))"

text \<open>
  \<open>std::accumulate(first, last, 1, std::multiplies<int64_t>())\<close>: the initial value
  \<open>1\<close> is an \<open>int\<close>, so the accumulator is an \<open>int\<close> and every product is narrowed
  to 32 bits (two's complement) when it is stored back.
\<close>

definition to_int32 :: "int \<Rightarrow> int" where
  "to_int32 x = sint (word_of_int x :: 32 word)"

definition accumulate_int :: "nat list \<Rightarrow> int \<Rightarrow> int" where
  "accumulate_int xs init = foldl (\<lambda>acc x. to_int32 (acc * int x)) init xs"

definition float_neg_infinity :: float where
  "float_neg_infinity = 0xFF800000"

definition float_infinity :: float where
  "float_infinity = 0x7F800000"

section \<open>Operators that record one dispatch\<close>

definition upsample_nearest2d ::
  "VulkanTensor \<Rightarrow> VulkanTensor \<Rightarrow> nat \<Rightarrow> nat \<Rightarrow> nat \<Rightarrow> nat \<Rightarrow> nat \<Rightarrow> nat \<Rightarrow> float \<Rightarrow> float
     \<Rightarrow> error + ComputeUnit" where
  "upsample_nearest2d output input IH IW OH OW N0 C0 scaleH scaleW =
     (let C = N0 * C0;
          cb = [i32 IW, i32 IH, i32 OW, i32 OH, scaleW, scaleH];
          constBuffer = makeUniformConstBuffer cb;
          workGroupSize = (8, 8, 1)
      in Inr \<lparr>descriptorTypes =
                [VK_DESCRIPTOR_TYPE_STORAGE_IMAGE,
                 VK_DESCRIPTOR_TYPE_COMBINED_IMAGE_SAMPLER,
                 VK_DESCRIPTOR_TYPE_UNIFORM_BUFFER],
              descriptorSet =
                [(0, BindStorageImage (image_of output)),
                 (1, BindShaderRead (image_of input)),
                 (2, BindBuffer constBuffer)],
              shader = ''upsampleNearest2d'',
              workGroupSize = workGroupSize,
              commandBuffer =
                [AddImageMemoryBarrierToShaderRead (image_of input),
                 DispatchCommandBuffer OW OH C (Some workGroupSize)]\<rparr>)"

definition adaptive_avg_pool2d ::
  "VulkanTensor \<Rightarrow> VulkanTensor \<Rightarrow> nat \<Rightarrow> nat \<Rightarrow> nat \<Rightarrow> nat \<Rightarrow> nat \<Rightarrow> nat \<Rightarrow> error + ComputeUnit" where
  "adaptive_avg_pool2d output input IH IW OH OW IN IC =
     (let C = IN * IC;
          cb = [i32 IW, i32 IH, i32 OW, i32 OH];
          constBuffer = makeUniformConstBuffer cb;
          workGroupSize = (8, 8, 1)
      in Inr \<lparr>descriptorTypes =
                [VK_DESCRIPTOR_TYPE_STORAGE_IMAGE,
                 VK_DESCRIPTOR_TYPE_COMBINED_IMAGE_SAMPLER,
                 VK_DESCRIPTOR_TYPE_UNIFORM_BUFFER],
              descriptorSet =
                [(0, BindStorageImage (image_of output)),
                 (1, BindShaderRead (image_of input)),
                 (2, BindBuffer constBuffer)],
              shader = ''adaptive_avg_pool2d'',
              workGroupSize = workGroupSize,
              commandBuffer =
                [AddImageMemoryBarrierToShaderRead (image_of input),
                 DispatchCommandBuffer OW OH C (Some workGroupSize)]\<rparr>)"

record pool_args =
  pool_iH :: nat
  pool_iW :: nat
  pool_oH :: nat
  pool_oW :: nat
  pool_n :: nat
  pool_c :: nat
  pool_kH :: nat
  pool_kW :: nat
  pool_dH :: nat
  pool_dW :: nat
  pool_padH :: nat
  pool_padW :: nat
  pool_dilationH :: nat
  pool_dilationW :: nat

definition max_pool2d :: "VulkanTensor \<Rightarrow> VulkanTensor \<Rightarrow> pool_args \<Rightarrow> error + ComputeUnit" where
  "max_pool2d output input a =
     (let c = pool_n a * pool_c a;
          cb = [i32 (pool_iW a), i32 (pool_iH a), i32 c, 0,
                i32 (pool_oW a), i32 (pool_oH a), i32 c, 0,
                i32 (pool_kW a), i32 (pool_kH a),
                i32 (pool_dW a), i32 (pool_dH a),
                i32 (pool_padW a), i32 (pool_padH a),
                i32 (pool_dilationW a), i32 (pool_dilationH a)];
          constBuffer = makeUniformConstBuffer cb;
          workGroupSize = (8, 8, 1)
      in Inr \<lparr>descriptorTypes =
                [VK_DESCRIPTOR_TYPE_STORAGE_IMAGE,
                 VK_DESCRIPTOR_TYPE_COMBINED_IMAGE_SAMPLER,
                 VK_DESCRIPTOR_TYPE_UNIFORM_BUFFER],
              descriptorSet =
                [(0, BindStorageImage (image_of output)),
                 (1, BindShaderRead (image_of input)),
                 (2, BindBuffer constBuffer)],
              shader = ''max_pool2d'',
              workGroupSize = workGroupSize,
              commandBuffer =
                [AddImageMemoryBarrierToShaderRead (image_of input),
                 DispatchCommandBuffer (pool_oW a) (pool_oH a) c (Some workGroupSize)]\<rparr>)"

text \<open>
  Tensor + tensor \<open>add\<close>. \<open>std::copy(os.begin(), os.end(), os4.end() - odim)\<close> into
  \<open>{1, 1, 1, 1}\<close> pads the sizes on the left with ones; it runs only after the three
  rank assertions.
\<close>

definition pad4 :: "nat list \<Rightarrow> nat list" where
  "pad4 s = replicate (4 - length s) 1 @ s"

definition add ::
  "VulkanTensor \<Rightarrow> VulkanTensor \<Rightarrow> VulkanTensor \<Rightarrow> float \<Rightarrow> error + ComputeUnit" where
  "add output input0 input1 alpha =
     (let odim = dim output in
      TORCH_INTERNAL_ASSERT (odim \<le> 4) ''odim <= 4''
        ''Vulkan add is implemented for dim <= 4, output dim > 4''
     (let i0dim = dim input0 in
      TORCH_INTERNAL_ASSERT (i0dim \<le> 4) ''i0dim <= 4''
        ''Vulkan add is implemented for dim <= 4, input0 dim > 4''
     (let i1dim = dim input1 in
      TORCH_INTERNAL_ASSERT (i1dim \<le> 4) ''i1dim <= 4''
        ''Vulkan add is implemented for dim <= 4, input1 dim > 4''
     (let os4 = pad4 (sizes output);
          i0s4 = pad4 (sizes input0);
          i1s4 = pad4 (sizes input1) in
      TORCH_INTERNAL_ASSERT (os4 = i0s4 \<and> i0s4 = i1s4) ''(os4 == i0s4) && (i0s4 == i1s4)''
        ''Vulkan add expects the same dimensions for all operands''
     (let C = os4 ! 0 * os4 ! 1;
          H = os4 ! 2;
          W = os4 ! 3;
          cb = [i32 W, i32 H, i32 C, alpha];
          constBuffer = makeUniformConstBuffer cb;
          workGroupSize = (8, 8, 1)
      in Inr \<lparr>descriptorTypes =
                [VK_DESCRIPTOR_TYPE_STORAGE_IMAGE,
                 VK_DESCRIPTOR_TYPE_COMBINED_IMAGE_SAMPLER,
                 VK_DESCRIPTOR_TYPE_COMBINED_IMAGE_SAMPLER,
                 VK_DESCRIPTOR_TYPE_UNIFORM_BUFFER],
              descriptorSet =
                [(0, BindStorageImage (image_of output)),
                 (1, BindShaderRead (image_of input0)),
                 (2, BindShaderRead (image_of input1)),
                 (3, BindBuffer constBuffer)],
              shader = ''add'',
              workGroupSize = workGroupSize,
              commandBuffer =
                [AddImageMemoryBarrierToGeneral (image_of output),
                 AddImageMemoryBarrierToShaderRead (image_of input0),
                 AddImageMemoryBarrierToShaderRead (image_of input1),
                 DispatchCommandBuffer W H C (Some workGroupSize)]\<rparr>)))))"

text \<open>
  \<open>add\<close> and \<open>mul\<close> by a scalar differ in the shader only. The channel count is
  accumulated over \<open>[sizes.cbegin(), sizes.cend() - 2)\<close>, which is no range when there
  are fewer than two sizes; it is an \<open>int\<close> (see \<open>accumulate_int\<close>) and is passed on as
  the 32-bit value it converts to. \<open>H\<close> and \<open>W\<close> are \<open>sizes[2]\<close> and \<open>sizes[3]\<close>.
\<close>

definition scalar_op ::
  "string \<Rightarrow> VulkanTensor \<Rightarrow> VulkanTensor \<Rightarrow> float \<Rightarrow> error + ComputeUnit" where
  "scalar_op name output input s =
     (let sizes0 = sizes input in
      if length sizes0 < 2 then Inl (UndefinedBehaviour ''sizes.cend() - 2'')
      else
        let C = accumulate_int (take (length sizes0 - 2) sizes0) 1 in
        bind_result (size_at sizes0 2) (\<lambda>H.
        bind_result (size_at sizes0 3) (\<lambda>W.
          let cb = [i32 W, i32 H, word_of_int C, 0, s];
              constBuffer = makeUniformConstBuffer cb;
              workGroupSize = (8, 8, 1)
          in Inr \<lparr>descriptorTypes =
                    [VK_DESCRIPTOR_TYPE_STORAGE_IMAGE,
                     VK_DESCRIPTOR_TYPE_COMBINED_IMAGE_SAMPLER,
                     VK_DESCRIPTOR_TYPE_UNIFORM_BUFFER],
                  descriptorSet =
                    [(0, BindStorageImage (image_of output)),
                     (1, BindShaderRead (image_of input)),
                     (2, BindBuffer constBuffer)],
                  shader = name,
                  workGroupSize = workGroupSize,
                  commandBuffer =
                    [AddImageMemoryBarrierToGeneral (image_of output),
                     AddImageMemoryBarrierToShaderRead (image_of input),
                     DispatchCommandBuffer W H (unat (word_of_int C :: 32 word))
                       (Some workGroupSize)]\<rparr>)))"

definition add_scalar :: "VulkanTensor \<Rightarrow> VulkanTensor \<Rightarrow> float \<Rightarrow> error + ComputeUnit" where
  "add_scalar output input s = scalar_op ''add_scalar'' output input s"

definition mul :: "VulkanTensor \<Rightarrow> VulkanTensor \<Rightarrow> float \<Rightarrow> error + ComputeUnit" where
  "mul output input s = scalar_op ''mul_scalar'' output input s"


definition clamp ::
  "VulkanTensor \<Rightarrow> VulkanTensor \<Rightarrow> float \<Rightarrow> float \<Rightarrow> error + ComputeUnit" where
  "clamp output input min0 max0 =
     (let sizes0 = sizes output in
      bind_result (size_at sizes0 0) (\<lambda>s0.
      bind_result (size_at sizes0 1) (\<lambda>s1.
      bind_result (size_at sizes0 2) (\<lambda>H.
      bind_result (size_at sizes0 3) (\<lambda>W.
        let C = s0 * s1;
            C_4 = UP_DIV C 4;
            cb = [i32 W, i32 H, i32 C_4, i32 C, min0, max0];
            constBuffer = makeUniformConstBuffer cb;
            workGroupSize = (8, 8, 1)
        in Inr \<lparr>descriptorTypes =
                  [VK_DESCRIPTOR_TYPE_STORAGE_IMAGE,
                   VK_DESCRIPTOR_TYPE_COMBINED_IMAGE_SAMPLER,
                   VK_DESCRIPTOR_TYPE_UNIFORM_BUFFER],
                descriptorSet =
                  [(0, BindStorageImage (image_of output)),
                   (1, BindShaderRead (image_of input)),
                   (2, BindBuffer constBuffer)],
                shader = ''clamp'',
                workGroupSize = workGroupSize,
                commandBuffer =
                  [AddImageMemoryBarrierToGeneral (image_of output),
                   AddImageMemoryBarrierToShaderRead (image_of input),
                   DispatchCommandBuffer W H C (Some workGroupSize)]\<rparr>)))))"

definition mean :: "VulkanTensor \<Rightarrow> VulkanTensor \<Rightarrow> error + ComputeUnit" where
  "mean output input =
     (let isizes = sizes input in
      bind_result (size_at isizes 0) (\<lambda>N.
      bind_result (size_at isizes 1) (\<lambda>C.
      bind_result (size_at isizes 2) (\<lambda>H.
      bind_result (size_at isizes 3) (\<lambda>W.
        let C_4 = UP_DIV (N * C) 4;
            cb = [i32 W, i32 H, i32 C, i32 N];
            constBuffer = makeUniformConstBuffer cb;
            workGroupSize = (1, 1, 1)
        in Inr \<lparr>descriptorTypes =
                  [VK_DESCRIPTOR_TYPE_STORAGE_IMAGE,
                   VK_DESCRIPTOR_TYPE_COMBINED_IMAGE_SAMPLER,
                   VK_DESCRIPTOR_TYPE_UNIFORM_BUFFER],
                descriptorSet =
                  [(0, BindStorageImage (image_of output)),
                   (1, BindShaderRead (image_of input)),
                   (2, BindBuffer constBuffer)],
                shader = ''mean'',
                workGroupSize = workGroupSize,
                commandBuffer =
                  [AddImageMemoryBarrierToGeneral (image_of output),
                   AddImageMemoryBarrierToShaderRead (image_of input),
                   DispatchCommandBuffer 1 1 C_4 (Some workGroupSize)]\<rparr>)))))"

text \<open>
  \<open>addmm\<close>: the sizes are narrowed to \<open>uint32_t\<close>. With the optional term \<open>t\<close> the
  descriptor set has a fifth entry, bound after the constant block.
\<close>

definition addmm ::
  "VulkanTensor \<Rightarrow> VulkanTensor option \<Rightarrow> VulkanTensor \<Rightarrow> VulkanTensor \<Rightarrow> float \<Rightarrow> float
     \<Rightarrow> error + ComputeUnit" where
  "addmm output t m1 m2 beta alpha =
     (let hasT = (t \<noteq> None);
          m1Sizes = sizes m1;
          m2Sizes = sizes m2 in
      TORCH_INTERNAL_ASSERT (length m1Sizes = 2) ''m1Sizes.size() == 2'' ''''
     (TORCH_INTERNAL_ASSERT (length m2Sizes = 2) ''m2Sizes.size() == 2'' ''''
     (let m1H = u32 (m1Sizes ! 0);
          m1W = u32 (m1Sizes ! 1);
          m1C = 1;
          m1C_4 = UP_DIV m1C 4;
          m2H = u32 (m2Sizes ! 0);
          m2W = u32 (m2Sizes ! 1);
          m2C = 1;
          m2C_4 = UP_DIV m2C 4;
          OH = u32 (m1Sizes ! 0);
          OW = u32 (m2Sizes ! 1) in
      TORCH_INTERNAL_ASSERT (m1W = m2H) ''m1W == m2H'' ''''
     (TORCH_INTERNAL_ASSERT (m1C = m2C) ''m1C == m2C'' ''''
     (let C = m1C;
          C_4 = UP_DIV C 4;
          K = m1W;
          cb = [i32 OW, i32 OH, i32 C_4, i32 C, beta, alpha, i32 K];
          constBuffer = makeUniformConstBuffer cb;
          workGroupSize = (8, 8, 1)
      in case t of
           Some t0 \<Rightarrow>
             Inr \<lparr>descriptorTypes =
                    [VK_DESCRIPTOR_TYPE_STORAGE_IMAGE,
                     VK_DESCRIPTOR_TYPE_COMBINED_IMAGE_SAMPLER,
                     VK_DESCRIPTOR_TYPE_COMBINED_IMAGE_SAMPLER,
                     VK_DESCRIPTOR_TYPE_UNIFORM_BUFFER,
                     VK_DESCRIPTOR_TYPE_COMBINED_IMAGE_SAMPLER],
                  descriptorSet =
                    [(0, BindStorageImage (image_of output)),
                     (1, BindShaderRead (image_of m1)),
                     (2, BindShaderRead (image_of m2)),
                     (3, BindBuffer constBuffer),
                     (4, BindShaderRead (image_of t0))],
                  shader = ''addmm'',
                  workGroupSize = workGroupSize,
                  commandBuffer =
                    [AddImageMemoryBarrierToGeneral (image_of output),
                     AddImageMemoryBarrierToShaderRead (image_of m1),
                     AddImageMemoryBarrierToShaderRead (image_of m2),
                     AddImageMemoryBarrierToShaderRead (image_of t0),
                     DispatchCommandBuffer OW OH C_4 (Some workGroupSize)]\<rparr>
         | None \<Rightarrow>
             Inr \<lparr>descriptorTypes =
                    [VK_DESCRIPTOR_TYPE_STORAGE_IMAGE,
                     VK_DESCRIPTOR_TYPE_COMBINED_IMAGE_SAMPLER,
                     VK_DESCRIPTOR_TYPE_COMBINED_IMAGE_SAMPLER,
                     VK_DESCRIPTOR_TYPE_UNIFORM_BUFFER],
                  descriptorSet =
                    [(0, BindStorageImage (image_of output)),
                     (1, BindShaderRead (image_of m1)),
                     (2, BindShaderRead (image_of m2)),
                     (3, BindBuffer constBuffer)],
                  shader = ''mm'',
                  workGroupSize = workGroupSize,
                  commandBuffer =
                    [AddImageMemoryBarrierToGeneral (image_of output),
                     AddImageMemoryBarrierToShaderRead (image_of m1),
                     AddImageMemoryBarrierToShaderRead (image_of m2),
                     DispatchCommandBuffer OW OH C_4 (Some workGroupSize)]\<rparr>)))))"

section \<open>Convolution\<close>

text \<open>
  \<open>bufferFromOptionalHostData\<close>: \<open>dataSize\<close> and \<open>bufferSize\<close> are \<open>uint32_t\<close>
  byte counts (the assertion's message, which also prints the two numbers, is kept
  without them). A host pointer is the list of floats it points to; copying \<open>dataSize\<close>
  bytes reads \<open>dataSize div 4\<close> of them. The floats of the new buffer beyond the data
  copied are not written.
\<close>

definition bufferFromOptionalHostData ::
  "VContext \<Rightarrow> float list option \<Rightarrow> nat \<Rightarrow> nat \<Rightarrow> error + VBuffer" where
  "bufferFromOptionalHostData ctx data dataSize bufferSize =
     TORCH_INTERNAL_ASSERT (dataSize \<le> bufferSize) ''dataSize <= bufferSize''
       ''buffer size is not enough for data''
     (if minStorageBufferOffsetAlignment ctx = 0
      then Inl (UndefinedBehaviour ''ROUND_UP: division by zero'')
      else
        let sizeAligned = ROUND_UP bufferSize (minStorageBufferOffsetAlignment ctx) in
        case data of
          Some d \<Rightarrow>
            if length d < dataSize div 4
            then Inl (UndefinedBehaviour ''copy_from_host_to_device: read of data'')
            else Inr (DeviceBuffer sizeAligned
                        (map Some (take (dataSize div 4) d)
                           @ replicate (sizeAligned div 4 - dataSize div 4) None))
        | None \<Rightarrow> Inr (DeviceBuffer sizeAligned (replicate (sizeAligned div 4) (Some 0))))"

definition bufferZeros :: "nat \<Rightarrow> VBuffer" where
  "bufferZeros size0 = DeviceBuffer size0 (replicate (size0 div 4) (Some 0))"

text \<open>The bias buffer every host-bias overload builds from \<open>params.OC\<close>.\<close>

definition bias_buffer :: "VContext \<Rightarrow> float list option \<Rightarrow> Conv2DParams \<Rightarrow> error + VBuffer" where
  "bias_buffer ctx bias params =
     bufferFromOptionalHostData ctx bias
       (u32 (4 * params_OC params)) (u32 (4 * ALIGN_UP4 (params_OC params)))"

definition conv_const_block ::
  "Conv2DParams \<Rightarrow> 32 word \<Rightarrow> 32 word \<Rightarrow> float option \<Rightarrow> float option \<Rightarrow> 32 word list" where
  "conv_const_block params oc c output_min output_max =
     [i32 (params_PX params), i32 (params_PY params),
      i32 (params_KW params), i32 (params_KH params),
      i32 (params_SX params), i32 (params_SY params),
      i32 (params_DX params), i32 (params_DY params),
      i32 (params_OW params), i32 (params_OH params), i32 (params_OC_4 params), oc,
      i32 (params_W params), i32 (params_H params), i32 (params_C_4 params), c,
      (case output_min of Some m \<Rightarrow> m | None \<Rightarrow> float_neg_infinity),
      (case output_max of Some m \<Rightarrow> m | None \<Rightarrow> float_infinity)]"

text \<open>\<open>conv2d_depthwise\<close> with the bias in a device buffer: the overload that dispatches.\<close>

definition conv2d_depthwise ::
  "VulkanTensor \<Rightarrow> VulkanTensor \<Rightarrow> VulkanTensor \<Rightarrow> VBuffer \<Rightarrow> Conv2DParams
     \<Rightarrow> float option \<Rightarrow> float option \<Rightarrow> error + ComputeUnit" where
  "conv2d_depthwise output input weight biasBuffer params output_min output_max =
     TORCH_INTERNAL_ASSERT (params_G params = params_C params) ''params.G == params.C'' ''''
     (let osizes = sizes output in
      bind_result (size_at osizes 2) (\<lambda>o2.
      TORCH_INTERNAL_ASSERT (o2 = params_OH params) ''osizes[2] == params.OH'' ''''
     (bind_result (size_at osizes 3) (\<lambda>o3.
      TORCH_INTERNAL_ASSERT (o3 = params_OW params) ''osizes[3] == params.OW'' ''''
     (let cb = conv_const_block params 0 0 output_min output_max;
          constBuffer = makeUniformConstBuffer cb;
          workGroupSize = (8, 8, 1)
      in Inr \<lparr>descriptorTypes =
                [VK_DESCRIPTOR_TYPE_STORAGE_IMAGE,
                 VK_DESCRIPTOR_TYPE_COMBINED_IMAGE_SAMPLER,
                 VK_DESCRIPTOR_TYPE_COMBINED_IMAGE_SAMPLER,
                 VK_DESCRIPTOR_TYPE_STORAGE_BUFFER,
                 VK_DESCRIPTOR_TYPE_UNIFORM_BUFFER],
              descriptorSet =
                [(0, BindStorageImage (image_of output)),
                 (1, BindShaderRead (image_of input)),
                 (2, BindShaderRead (image_of weight)),
                 (3, BindBuffer biasBuffer),
                 (4, BindBuffer constBuffer)],
              shader = ''conv2d_dw_clamp'',
              workGroupSize = workGroupSize,
              commandBuffer =
                [AddImageMemoryBarrierToGeneral (image_of output),
                 AddImageMemoryBarrierToShaderRead (image_of input),
                 AddImageMemoryBarrierToShaderRead (image_of weight),
                 DispatchCommandBuffer (params_OW params) (params_OH params)
                   (params_OC_4 params) (Some workGroupSize)]\<rparr>)))))"

text \<open>
  The overload with an optional host bias: the bias buffer is an argument of the call, so
  it is built before \<open>conv2d_depthwise\<close> is entered.
\<close>

definition conv2d_depthwise_host_bias ::
  "VContext \<Rightarrow> VulkanTensor \<Rightarrow> VulkanTensor \<Rightarrow> VulkanTensor \<Rightarrow> float list option \<Rightarrow> Conv2DParams
     \<Rightarrow> float option \<Rightarrow> float option \<Rightarrow> error + ComputeUnit" where
  "conv2d_depthwise_host_bias ctx output input weight bias params output_min output_max =
     bind_result (bias_buffer ctx bias params) (\<lambda>biasBuffer.
       conv2d_depthwise output input weight biasBuffer params output_min output_max)"

text \<open>
  The overload with a host weight: \<open>weightTensor\<close> is a new tensor of sizes
  \<open>{OC, KH, KW}\<close> filled from the host pointer. Modelled from the spec: its image has
  depth \<open>ceil(channels / 4)\<close>.
\<close>

definition conv2d_depthwise_host_weight ::
  "VContext \<Rightarrow> VulkanTensor \<Rightarrow> VulkanTensor \<Rightarrow> float list \<Rightarrow> float list option \<Rightarrow> Conv2DParams
     \<Rightarrow> float option \<Rightarrow> float option \<Rightarrow> error + ComputeUnit" where
  "conv2d_depthwise_host_weight ctx output input weight bias params output_min output_max =
     (let weightTensor =
            \<lparr>tensor_id = new_image_id ctx,
             sizes = [params_OC params, params_KH params, params_KW params],
             image_of = \<lparr>image_id = new_image_id ctx,
                          image_sizes = (params_KW params, params_KH params,
                                         UP_DIV (params_OC params) 4)\<rparr>\<rparr>
      in if length weight < numel weightTensor
         then Inl (UndefinedBehaviour ''set_data_from_host: read of weight'')
         else bind_result (bias_buffer ctx bias params) (\<lambda>biasBuffer.
                conv2d_depthwise output input weightTensor biasBuffer params
                  output_min output_max))"

subsection \<open>Prepacking the weights\<close>

record ImageSizes =
  imageSize :: "nat \<times> nat \<times> nat"
  dataSize :: "nat \<times> nat \<times> nat"

definition conv2d_prepack_weights_image_sizes :: "nat \<Rightarrow> nat \<Rightarrow> nat \<Rightarrow> nat \<Rightarrow> ImageSizes" where
  "conv2d_prepack_weights_image_sizes OC C KH KW =
     \<lparr>imageSize = (ALIGN_UP4 C, UP_DIV OC 4, KH * KW),
      dataSize = (ALIGN_UP4 C, UP_DIV OC 4, KH * KW)\<rparr>"

definition conv2d_prepack_weights_to_image ::
  "VContext \<Rightarrow> VImage \<Rightarrow> float list \<Rightarrow> nat \<Rightarrow> nat \<Rightarrow> nat \<Rightarrow> nat \<Rightarrow> error + ComputeUnit" where
  "conv2d_prepack_weights_to_image ctx image0 weight OC C KH KW =
     bind_result (kernelNCHW_OCHW_repack_O4C4HWi4o4 (map_ok ctx) weight OC C KH KW) (\<lambda>mem.
       let kernelBuffer = DeviceBuffer (4 * length mem) mem;
           OC_4 = UP_DIV OC 4;
           C_4 = UP_DIV C 4;
           expectedSizes = conv2d_prepack_weights_image_sizes OC C KH KW in
       TORCH_INTERNAL_ASSERT (image_sizes image0 = imageSize expectedSizes)
         ''image.sizes() == expectedSizes.imageSize'' ''Out VImage sizes do not match expected''
      (let cb = [i32 (KW * KH), i32 C_4];
           constBuffer = makeUniformConstBuffer cb;
           workGroupSize = (1, 1, 1)
       in Inr \<lparr>descriptorTypes =
                 [VK_DESCRIPTOR_TYPE_STORAGE_IMAGE,
                  VK_DESCRIPTOR_TYPE_STORAGE_BUFFER,
                  VK_DESCRIPTOR_TYPE_UNIFORM_BUFFER],
               descriptorSet =
                 [(0, BindStorageImage image0),
                  (1, BindBuffer kernelBuffer),
                  (2, BindBuffer constBuffer)],
               shader = ''KO4C4HW_to_image'',
               workGroupSize = workGroupSize,
               commandBuffer =
                 [AddImageMemoryBarrierToGeneral image0,
                  AddBufferMemoryBarrier kernelBuffer 0 (4 * length mem),
                  AddMemoryBarrier ''VK_PIPELINE_STAGE_HOST_BIT'' ''VK_ACCESS_HOST_WRITE_BIT''
                    ''VK_PIPELINE_STAGE_COMPUTE_SHADER_BIT'' ''VK_ACCESS_SHADER_READ_BIT'',
                  DispatchCommandBuffer C_4 OC_4 (KH * KW) (Some workGroupSize)]\<rparr>))"

definition conv2d_prepack_weights_image ::
  "VContext \<Rightarrow> float list \<Rightarrow> nat \<Rightarrow> nat \<Rightarrow> nat \<Rightarrow> nat \<Rightarrow> error + VImage \<times> ComputeUnit" where
  "conv2d_prepack_weights_image ctx weight OC C KH KW =
     (let image0 = \<lparr>image_id = new_image_id ctx,
                    image_sizes = imageSize (conv2d_prepack_weights_image_sizes OC C KH KW)\<rparr>
      in bind_result (conv2d_prepack_weights_to_image ctx image0 weight OC C KH KW)
           (\<lambda>u. Inr (image0, u)))"

text \<open>\<open>output.image(imageSizes)\<close> is the image of \<open>output\<close>, realized with the sizes given.\<close>

definition conv2d_prepack_weights ::
  "VContext \<Rightarrow> VulkanTensor \<Rightarrow> float list \<Rightarrow> nat \<Rightarrow> nat \<Rightarrow> nat \<Rightarrow> nat \<Rightarrow> error + ComputeUnit" where
  "conv2d_prepack_weights ctx output weight OC C KH KW =
     (let imageSizes = conv2d_prepack_weights_image_sizes OC C KH KW
      in conv2d_prepack_weights_to_image ctx
           ((image_of output)\<lparr>image_sizes := imageSize imageSizes\<rparr>) weight OC C KH KW)"

subsection \<open>The five conv2d entry points\<close>

text \<open>
  \<open>conv2d\<close> with a prepacked kernel image and the bias in a device buffer: the overload
  that dispatches. The group counts divide by the work-group size
  \<open>{1, 1, params.OC_4}\<close>.
\<close>

definition conv2d_image_buffer ::
  "VulkanTensor \<Rightarrow> VulkanTensor \<Rightarrow> VImage \<Rightarrow> VBuffer \<Rightarrow> Conv2DParams
     \<Rightarrow> float option \<Rightarrow> float option \<Rightarrow> error + ComputeUnit" where
  "conv2d_image_buffer output input kernelImage biasBuffer params output_min output_max =
     TORCH_INTERNAL_ASSERT (params_G params = 1) ''params.G == 1''
       ''Prepacked kernel VImage for non-group conv2d only''
     (let osizes = sizes output in
      bind_result (size_at osizes 2) (\<lambda>o2.
      TORCH_INTERNAL_ASSERT (o2 = params_OH params) ''osizes[2] == params.OH''
        ''Output tensor dims do not match specified conv2d params''
     (bind_result (size_at osizes 3) (\<lambda>o3.
      TORCH_INTERNAL_ASSERT (o3 = params_OW params) ''osizes[3] == params.OW''
        ''Output tensor dims do not match specified conv2d params''
     (let cb = conv_const_block params (i32 (params_OC params)) (i32 (params_C params))
                 output_min output_max;
          constBuffer = makeUniformConstBuffer cb;
          workGroupSize = (1, 1, params_OC_4 params)
      in if params_OC_4 params = 0
         then Inl (UndefinedBehaviour ''UP_DIV: division by zero'')
         else
           Inr \<lparr>descriptorTypes =
                  [VK_DESCRIPTOR_TYPE_STORAGE_IMAGE,
                   VK_DESCRIPTOR_TYPE_COMBINED_IMAGE_SAMPLER,
                   VK_DESCRIPTOR_TYPE_COMBINED_IMAGE_SAMPLER,
                   VK_DESCRIPTOR_TYPE_STORAGE_BUFFER,
                   VK_DESCRIPTOR_TYPE_UNIFORM_BUFFER],
                descriptorSet =
                  [(0, BindStorageImage (image_of output)),
                   (1, BindShaderRead (image_of input)),
                   (2, BindShaderRead kernelImage),
                   (3, BindBuffer biasBuffer),
                   (4, BindBuffer constBuffer)],
                shader = ''conv2d_nogroup_clamp'',
                workGroupSize = workGroupSize,
                commandBuffer =
                  [AddImageMemoryBarrierToGeneral (image_of output),
                   AddImageMemoryBarrierToShaderRead (image_of input),
                   AddImageMemoryBarrierToShaderRead kernelImage,
                   DispatchCommandBuffer
                     (UP_DIV (params_OW params) (4 * 1))
                     (UP_DIV (params_OH params) 1)
                     (UP_DIV (params_OC_4 params) (params_OC_4 params)) None]\<rparr>)))))"

definition conv2d_image_host_bias ::
  "VContext \<Rightarrow> VulkanTensor \<Rightarrow> VulkanTensor \<Rightarrow> VImage \<Rightarrow> float list option \<Rightarrow> Conv2DParams
     \<Rightarrow> float option \<Rightarrow> float option \<Rightarrow> error + ComputeUnit" where
  "conv2d_image_host_bias ctx output input kernelImage bias params output_min output_max =
     TORCH_INTERNAL_ASSERT (params_G params = 1) ''params.G == 1''
       ''Prepacked kernel VImage for non-group conv2d only''
     (bind_result (bias_buffer ctx bias params) (\<lambda>biasBuffer.
        conv2d_image_buffer output input kernelImage biasBuffer params output_min output_max))"

definition conv2d_prepacked_host_bias ::
  "VContext \<Rightarrow> VulkanTensor \<Rightarrow> VulkanTensor \<Rightarrow> VulkanTensor \<Rightarrow> float list option \<Rightarrow> Conv2DParams
     \<Rightarrow> float option \<Rightarrow> float option \<Rightarrow> error + ComputeUnit" where
  "conv2d_prepacked_host_bias ctx output input weight_prepacked bias params output_min output_max =
     (if params_G params > 1 then
        bind_result (bias_buffer ctx bias params) (\<lambda>biasBuffer.
          conv2d_depthwise output input weight_prepacked biasBuffer params output_min output_max)
      else
        conv2d_image_host_bias ctx output input (image_of weight_prepacked) bias params
          output_min output_max)"

definition conv2d_prepacked_tensor_bias ::
  "VulkanTensor \<Rightarrow> VulkanTensor \<Rightarrow> VulkanTensor \<Rightarrow> VulkanTensor \<Rightarrow> Conv2DParams
     \<Rightarrow> float option \<Rightarrow> float option \<Rightarrow> error + ComputeUnit" where
  "conv2d_prepacked_tensor_bias output input weight_prepacked bias params output_min output_max =
     (if params_G params > 1 then
        conv2d_depthwise output input weight_prepacked (buffer_of bias) params
          output_min output_max
      else
        conv2d_image_buffer output input (image_of weight_prepacked) (buffer_of bias) params
          output_min output_max)"

text \<open>
  The bare-pointer entry point can submit two dispatches (the repack, then the
  convolution), so its result is the list of dispatches submitted and the failure that
  ended the call, if any.
\<close>

definition submitted :: "error + ComputeUnit \<Rightarrow> ComputeUnit list \<times> error option" where
  "submitted r = (case r of Inl e \<Rightarrow> ([], Some e) | Inr u \<Rightarrow> ([u], None))"

definition conv2d_host_weight ::
  "VContext \<Rightarrow> VulkanTensor \<Rightarrow> VulkanTensor \<Rightarrow> float list \<Rightarrow> float list option \<Rightarrow> Conv2DParams
     \<Rightarrow> float option \<Rightarrow> float option \<Rightarrow> ComputeUnit list \<times> error option" where
  "conv2d_host_weight ctx output input weight bias params output_min output_max =
     (if params_G params > 1 then
        submitted
          (TORCH_INTERNAL_ASSERT (params_G params = params_C params) ''params.G == params.C''
             ''Vulkan conv2d supports only no-group and depthwise''
             (conv2d_depthwise_host_weight ctx output input weight bias params
                output_min output_max))
      else
        case conv2d_prepack_weights_image ctx weight (params_OC params) (params_C params)
               (params_KH params) (params_KW params) of
          Inl e \<Rightarrow> ([], Some e)
        | Inr (kernelImage, repack) \<Rightarrow>
            (case conv2d_image_host_bias ctx output input kernelImage bias params
                    output_min output_max of
               Inl e \<Rightarrow> ([repack], Some e)
             | Inr u \<Rightarrow> ([repack, u], None)))"


section \<open>Buffer copies: reshape_copy and cat\<close>

text \<open>
  Modelled from the spec: \<open>sync_image_to_buffer\<close>, \<open>allocate_storage\<close>,
  \<open>copy_buffer_to_buffer\<close> and the storage of a tensor are in Vulkan.h and
  Vulkan.cpp, which are not among the sources. A tensor handle owns a buffer and an
  optionally materialized image of the same data, with a flag for which one is
  authoritative; reading through the buffer while the image is authoritative first
  resynchronizes the buffer. New storage is zero-filled. A copy that does not fit its
  source or destination buffer is a resource-size contract violation, a fatal assertion.
  Several handles may name one storage, so the storages live in a store keyed by
  \<open>tensor_id\<close>; the image contents are kept as the bytes their buffer form has.
\<close>

type_synonym byte = "8 word"

record storage =
  buffer_bytes :: "byte list"
  image_bytes :: "byte list"
  image_authoritative :: bool

datatype action =
    SyncImageToBuffer nat
  | AllocateStorage nat nat
  | CopyBufferToBuffer nat nat nat nat nat

record device =
  storages :: "nat \<Rightarrow> storage option"
  next_tensor_id :: nat
  actions :: "action list"

definition tensor_data :: "storage \<Rightarrow> byte list" where
  "tensor_data st = (if image_authoritative st then image_bytes st else buffer_bytes st)"

definition sync_image_to_buffer :: "VulkanTensor \<Rightarrow> device \<Rightarrow> error + device" where
  "sync_image_to_buffer t dev =
     (case storages dev (tensor_id t) of
        None \<Rightarrow> Inl (UndefinedBehaviour ''tensor without storage'')
      | Some st \<Rightarrow>
          Inr (dev\<lparr>storages := (storages dev)(tensor_id t \<mapsto>
                        st\<lparr>buffer_bytes := tensor_data st, image_authoritative := False\<rparr>),
                    actions := actions dev @ [SyncImageToBuffer (tensor_id t)]\<rparr>))"

definition copy_buffer_to_buffer ::
  "nat \<Rightarrow> nat \<Rightarrow> nat \<Rightarrow> nat \<Rightarrow> nat \<Rightarrow> device \<Rightarrow> error + device" where
  "copy_buffer_to_buffer src dst size0 srcOffset dstOffset dev =
     (case (storages dev src, storages dev dst) of
        (Some s, Some d) \<Rightarrow>
          TORCH_INTERNAL_ASSERT
            (srcOffset + size0 \<le> length (buffer_bytes s)
               \<and> dstOffset + size0 \<le> length (buffer_bytes d))
            ''copy_buffer_to_buffer'' ''buffer too small for requested data''
            (Inr (dev\<lparr>storages := (storages dev)(dst \<mapsto>
                          d\<lparr>buffer_bytes :=
                               take dstOffset (buffer_bytes d)
                                 @ take size0 (drop srcOffset (buffer_bytes s))
                                 @ drop (dstOffset + size0) (buffer_bytes d)\<rparr>),
                      actions := actions dev
                                   @ [CopyBufferToBuffer src dst size0 srcOffset dstOffset]\<rparr>))
      | _ \<Rightarrow> Inl (UndefinedBehaviour ''tensor without storage''))"

text \<open>Modelled from the spec: the image of a tensor has depth \<open>ceil(channels / 4)\<close>.\<close>

definition tensor_image_sizes :: "nat list \<Rightarrow> nat \<times> nat \<times> nat" where
  "tensor_image_sizes s =
     (let s4 = pad4 s in (s4 ! 3, s4 ! 2, UP_DIV (s4 ! 0 * s4 ! 1) 4))"

definition new_tensor :: "nat \<Rightarrow> nat list \<Rightarrow> VulkanTensor" where
  "new_tensor i shape =
     \<lparr>tensor_id = i, sizes = shape,
      image_of = \<lparr>image_id = i, image_sizes = tensor_image_sizes shape\<rparr>\<rparr>"

definition allocate_storage :: "VulkanTensor \<Rightarrow> device \<Rightarrow> device" where
  "allocate_storage t dev =
     dev\<lparr>storages := (storages dev)(tensor_id t \<mapsto>
             \<lparr>buffer_bytes = replicate (4 * numel t) 0,
              image_bytes = [],
              image_authoritative = False\<rparr>),
         next_tensor_id := Suc (max (next_tensor_id dev) (tensor_id t)),
         actions := actions dev @ [AllocateStorage (tensor_id t) (4 * numel t)]\<rparr>"

text \<open>
  \<open>reshape_copy\<close>: \<open>shapeNumel\<close> is accumulated in an \<open>int\<close> (see
  \<open>accumulate_int\<close>) and compared with the 64-bit \<open>input.numel()\<close>. The copy has the
  size of the input's buffer, \<open>input.buffer()->sizeBytes()\<close>.
\<close>

definition reshape_copy ::
  "VulkanTensor \<Rightarrow> nat list \<Rightarrow> device \<Rightarrow> error + VulkanTensor \<times> device" where
  "reshape_copy input shape dev =
     (let shapeNumel = accumulate_int shape 1 in
      TORCH_INTERNAL_ASSERT (shapeNumel = int (numel input)) ''shapeNumel == input.numel()''
        ''reshape_copy expects shape with equal number of elements with input Vulkan tensor''
     (bind_result (sync_image_to_buffer input dev) (\<lambda>dev1.
        let output = new_tensor (next_tensor_id dev1) shape;
            dev2 = allocate_storage output dev1
        in case storages dev2 (tensor_id input) of
             None \<Rightarrow> Inl (UndefinedBehaviour ''tensor without storage'')
           | Some st \<Rightarrow>
               bind_result
                 (copy_buffer_to_buffer (tensor_id input) (tensor_id output)
                    (length (buffer_bytes st)) 0 0 dev2)
                 (\<lambda>dev3. Inr (output, dev3)))))"

text \<open>
  \<open>cat\<close>: the loop state is the device and \<open>outputOffset\<close>. The argument \<open>dim\<close>
  is not used by the body.
\<close>

definition cat_step ::
  "VulkanTensor \<Rightarrow> VulkanTensor \<Rightarrow> device \<times> nat \<Rightarrow> error + device \<times> nat" where
  "cat_step output input st =
     (case st of (dev, outputOffset) \<Rightarrow>
        bind_result (sync_image_to_buffer input dev) (\<lambda>dev1.
          let sizeBytes = 4 * numel input in
          bind_result
            (copy_buffer_to_buffer (tensor_id input) (tensor_id output) sizeBytes 0
               outputOffset dev1)
            (\<lambda>dev2. Inr (dev2, outputOffset + sizeBytes))))"

definition cat ::
  "VulkanTensor \<Rightarrow> VulkanTensor list \<Rightarrow> int \<Rightarrow> device \<Rightarrow> error + VulkanTensor \<times> device" where
  "cat output inputs dim0 dev =
     bind_result (for_each (cat_step output) inputs (dev, 0))
       (\<lambda>st. Inr (output, fst st))"


text \<open>
  The words of the claims about \<open>cat\<close>: the data of a tensor is the first
  \<open>sizeof(float) * numel\<close> bytes of its authoritative representation; the output is
  read through its buffer; the actions of one pass over the inputs are a
  resynchronization and a copy per input, the copy at the running offset.
\<close>

definition input_bytes :: "device \<Rightarrow> VulkanTensor \<Rightarrow> byte list" where
  "input_bytes dev t =
     (case storages dev (tensor_id t) of
        Some st \<Rightarrow> take (4 * numel t) (tensor_data st)
      | None \<Rightarrow> [])"

definition output_bytes :: "device \<Rightarrow> VulkanTensor \<Rightarrow> byte list" where
  "output_bytes dev t =
     (case storages dev (tensor_id t) of Some st \<Rightarrow> buffer_bytes st | None \<Rightarrow> [])"

fun cat_actions :: "nat \<Rightarrow> VulkanTensor list \<Rightarrow> nat \<Rightarrow> action list" where
  "cat_actions out [] off = []"
| "cat_actions out (t # ts) off =
     [SyncImageToBuffer (tensor_id t),
      CopyBufferToBuffer (tensor_id t) out (4 * numel t) 0 off]
     @ cat_actions out ts (off + 4 * numel t)"

text \<open>
  What \<open>cat\<close> needs of the device: every input has storage holding its data, no input
  shares the storage of the output, and the buffer of the output has room for \<open>n\<close>
  bytes.
\<close>

definition cat_ready :: "device \<Rightarrow> VulkanTensor \<Rightarrow> VulkanTensor list \<Rightarrow> nat \<Rightarrow> bool" where
  "cat_ready dev output inputs n \<longleftrightarrow>
     (\<forall>t \<in> set inputs. tensor_id t \<noteq> tensor_id output
        \<and> (case storages dev (tensor_id t) of
             Some st \<Rightarrow> 4 * numel t \<le> length (tensor_data st)
           | None \<Rightarrow> False))
     \<and> n \<le> length (output_bytes dev output)
     \<and> storages dev (tensor_id output) \<noteq> None"


text \<open>The destination offsets of the copies among a list of actions, in order.\<close>

fun copy_offsets :: "action list \<Rightarrow> nat list" where
  "copy_offsets [] = []"
| "copy_offsets (CopyBufferToBuffer src dst n srcOffset dstOffset # as) =
     dstOffset # copy_offsets as"
| "copy_offsets (a # as) = copy_offsets as"


section \<open>The operators that build a descriptor set\<close>

text \<open>
  Twelve functions of VulkanOps.cpp build a descriptor set and record a dispatch; every
  other entry point reaches the device through one of them. A call of one of them, with
  its arguments in the order of the source:
\<close>

datatype op_call =
    Upsample_nearest2d VulkanTensor VulkanTensor nat nat nat nat nat nat float float
  | Adaptive_avg_pool2d VulkanTensor VulkanTensor nat nat nat nat nat nat
  | Max_pool2d VulkanTensor VulkanTensor pool_args
  | Add VulkanTensor VulkanTensor VulkanTensor float
  | Add_scalar VulkanTensor VulkanTensor float
  | Mul VulkanTensor VulkanTensor float
  | Conv2d_depthwise VulkanTensor VulkanTensor VulkanTensor VBuffer Conv2DParams
      "float option" "float option"
  | Conv2d_prepack_weights_to_image VContext VImage "float list" nat nat nat nat
  | Conv2d VulkanTensor VulkanTensor VImage VBuffer Conv2DParams "float option" "float option"
  | Clamp VulkanTensor VulkanTensor float float
  | Addmm VulkanTensor "VulkanTensor option" VulkanTensor VulkanTensor float float
  | Mean VulkanTensor VulkanTensor

fun record_dispatch :: "op_call \<Rightarrow> error + ComputeUnit" where
  "record_dispatch (Upsample_nearest2d output input IH IW OH OW N0 C0 scaleH scaleW) =
     upsample_nearest2d output input IH IW OH OW N0 C0 scaleH scaleW"
| "record_dispatch (Adaptive_avg_pool2d output input IH IW OH OW IN IC) =
     adaptive_avg_pool2d output input IH IW OH OW IN IC"
| "record_dispatch (Max_pool2d output input a) = max_pool2d output input a"
| "record_dispatch (Add output input0 input1 alpha) = add output input0 input1 alpha"
| "record_dispatch (Add_scalar output input s) = add_scalar output input s"
| "record_dispatch (Mul output input s) = mul output input s"
| "record_dispatch (Conv2d_depthwise output input weight biasBuffer params lo hi) =
     conv2d_depthwise output input weight biasBuffer params lo hi"
| "record_dispatch (Conv2d_prepack_weights_to_image ctx image0 weight OC C KH KW) =
     conv2d_prepack_weights_to_image ctx image0 weight OC C KH KW"
| "record_dispatch (Conv2d output input kernelImage biasBuffer params lo hi) =
     conv2d_image_buffer output input kernelImage biasBuffer params lo hi"
| "record_dispatch (Clamp output input lo hi) = clamp output input lo hi"
| "record_dispatch (Addmm output t m1 m2 beta alpha) = addmm output t m1 m2 beta alpha"
| "record_dispatch (Mean output input) = mean output input"

text \<open>
  The binding contract in the spec's words: the output first, then the inputs in argument
  order, then the auxiliary buffers, then the constant block. The input of the weight
  upload is the repacked buffer made from the host weight.
\<close>

fun op_output :: "op_call \<Rightarrow> binding" where
  "op_output (Upsample_nearest2d output input IH IW OH OW N0 C0 scaleH scaleW) =
     BindStorageImage (image_of output)"
| "op_output (Adaptive_avg_pool2d output input IH IW OH OW IN IC) =
     BindStorageImage (image_of output)"
| "op_output (Max_pool2d output input a) = BindStorageImage (image_of output)"
| "op_output (Add output input0 input1 alpha) = BindStorageImage (image_of output)"
| "op_output (Add_scalar output input s) = BindStorageImage (image_of output)"
| "op_output (Mul output input s) = BindStorageImage (image_of output)"
| "op_output (Conv2d_depthwise output input weight biasBuffer params lo hi) =
     BindStorageImage (image_of output)"
| "op_output (Conv2d_prepack_weights_to_image ctx image0 weight OC C KH KW) =
     BindStorageImage image0"
| "op_output (Conv2d output input kernelImage biasBuffer params lo hi) =
     BindStorageImage (image_of output)"
| "op_output (Clamp output input lo hi) = BindStorageImage (image_of output)"
| "op_output (Addmm output t m1 m2 beta alpha) = BindStorageImage (image_of output)"
| "op_output (Mean output input) = BindStorageImage (image_of output)"

fun op_inputs :: "op_call \<Rightarrow> binding list" where
  "op_inputs (Upsample_nearest2d output input IH IW OH OW N0 C0 scaleH scaleW) =
     [BindShaderRead (image_of input)]"
| "op_inputs (Adaptive_avg_pool2d output input IH IW OH OW IN IC) =
     [BindShaderRead (image_of input)]"
| "op_inputs (Max_pool2d output input a) = [BindShaderRead (image_of input)]"
| "op_inputs (Add output input0 input1 alpha) =
     [BindShaderRead (image_of input0), BindShaderRead (image_of input1)]"
| "op_inputs (Add_scalar output input s) = [BindShaderRead (image_of input)]"
| "op_inputs (Mul output input s) = [BindShaderRead (image_of input)]"
| "op_inputs (Conv2d_depthwise output input weight biasBuffer params lo hi) =
     [BindShaderRead (image_of input), BindShaderRead (image_of weight)]"
| "op_inputs (Conv2d_prepack_weights_to_image ctx image0 weight OC C KH KW) =
     (case kernelNCHW_OCHW_repack_O4C4HWi4o4 (map_ok ctx) weight OC C KH KW of
        Inr mem \<Rightarrow> [BindBuffer (DeviceBuffer (4 * length mem) mem)]
      | Inl e \<Rightarrow> [])"
| "op_inputs (Conv2d output input kernelImage biasBuffer params lo hi) =
     [BindShaderRead (image_of input), BindShaderRead kernelImage]"
| "op_inputs (Clamp output input lo hi) = [BindShaderRead (image_of input)]"
| "op_inputs (Addmm output t m1 m2 beta alpha) =
     (case t of Some t0 \<Rightarrow> [BindShaderRead (image_of t0)] | None \<Rightarrow> [])
       @ [BindShaderRead (image_of m1), BindShaderRead (image_of m2)]"
| "op_inputs (Mean output input) = [BindShaderRead (image_of input)]"

fun op_auxiliary :: "op_call \<Rightarrow> binding list" where
  "op_auxiliary (Conv2d_depthwise output input weight biasBuffer params lo hi) =
     [BindBuffer biasBuffer]"
| "op_auxiliary (Conv2d output input kernelImage biasBuffer params lo hi) =
     [BindBuffer biasBuffer]"
| "op_auxiliary c = []"

fun is_constant_block :: "binding \<Rightarrow> bool" where
  "is_constant_block (BindBuffer (UniformConstBuffer cb)) = True"
| "is_constant_block b = False"

definition binding_contract :: "op_call \<Rightarrow> (nat \<times> binding) list \<Rightarrow> bool" where
  "binding_contract c ds \<longleftrightarrow>
     ds \<noteq> []
     \<and> map fst ds = [0..<length ds]
     \<and> butlast (map snd ds) = op_output c # op_inputs c @ op_auxiliary c
     \<and> is_constant_block (last (map snd ds))"

fun addmm_with_t :: "op_call \<Rightarrow> bool" where
  "addmm_with_t (Addmm output (Some t) m1 m2 beta alpha) = True"
| "addmm_with_t c = False"


section \<open>Proofs: weight repacking\<close>


lemma for_each_append:
  "for_each body (xs @ ys) s =
     (case for_each body xs s of Inl e \<Rightarrow> Inl e | Inr s' \<Rightarrow> for_each body ys s')"
  by (induction xs arbitrary: s) (auto split: sum.splits)

lemma scatter_append:
  "scatter (ws @ vs) mem =
     (case scatter ws mem of Inl e \<Rightarrow> Inl e | Inr m \<Rightarrow> scatter vs m)"
  by (induction ws arbitrary: mem) (auto split: sum.splits)

lemma loop_as_scatter:
  assumes "\<And>i mem. i < n \<Longrightarrow>
             body i (mem, r + i * c) = with_ridx (r + i * c + c) (scatter (W i) mem)"
  shows "for_each body [0..<n] (mem, r) =
           with_ridx (r + n * c) (scatter (concat (map W [0..<n])) mem)"
  using assms
proof (induction n)
  case 0
  show ?case by (simp add: with_ridx_def)
next
  case (Suc n)
  have prev: "for_each body [0..<n] (mem, r) =
           with_ridx (r + n * c) (scatter (concat (map W [0..<n])) mem)"
    using Suc by simp
  have last: "body n (m, r + n * c) = with_ridx (r + n * c + c) (scatter (W n) m)" for m
    using Suc.prems by simp
  show ?case
    by (cases "scatter (concat (map W [0..<n])) mem")
       (simp_all add: for_each_append scatter_append prev last with_ridx_def add.commute
          split: sum.splits)
qed

lemma repack_kx_scatter:
  assumes "r < length src"
  shows "repack_kx src dst_ky a b kx (mem, r) =
           with_ridx (r + 1) (scatter [(dst_ky + kx * 16 + (4 * a + b), src ! r)] mem)"
  using assms
  by (simp add: repack_kx_def load_float_def with_ridx_def split: sum.splits)

lemma repack_ky_scatter:
  assumes "r + ky * KW + KW \<le> length src"
  shows "repack_ky src KW dst_ic a b ky (mem, r + ky * KW) =
           with_ridx (r + ky * KW + KW) (scatter (writes_ky src KW dst_ic a b r ky) mem)"
proof -
  have "for_each (repack_kx src (dst_ic + ky * KW * 16) a b) [0..<KW] (mem, r + ky * KW) =
        with_ridx (r + ky * KW + KW * 1)
          (scatter (concat (map (\<lambda>kx. [(dst_ic + ky * KW * 16 + kx * 16 + (4 * a + b),
             src ! (r + ky * KW + kx))]) [0..<KW])) mem)"
    by (rule loop_as_scatter) (use assms in \<open>simp add: repack_kx_scatter\<close>)
  then show ?thesis by (simp add: repack_ky_def writes_ky_def)
qed


lemma mult_bound: "(a::nat) < A \<Longrightarrow> b < B \<Longrightarrow> a * B + b < A * B"
proof -
  assume a: "a < A" and b: "b < B"
  have "a * B + b < a * B + B" using b by simp
  also have "\<dots> = Suc a * B" by simp
  also have "\<dots> \<le> A * B" using a by (intro mult_le_mono1) simp
  finally show ?thesis .
qed

lemma dense_index_bound:
  assumes "oc < OC" "ic < C" "ky < KH" "kx < KW"
  shows "dense_index C KH KW oc ic ky kx < OC * C * KH * KW"
  unfolding dense_index_def
  by (intro mult_bound assms)

lemma UP_DIV4: "UP_DIV x 4 = (x + 3) div 4"
  by (simp add: UP_DIV_def)

lemma ALIGN_UP4_eq: "ALIGN_UP4 x = 4 * UP_DIV x 4"
  by (simp add: ALIGN_UP4_def ROUND_UP_def UP_DIV_def)

lemma div4_less_UP_DIV: "x < n \<Longrightarrow> x div 4 < UP_DIV n 4"
  unfolding UP_DIV4 by arith

lemma block_number_bound:
  assumes "oc < OC" "ic < C" "ky < KH" "kx < KW"
  shows "block_number (UP_DIV C 4) KH KW (ic div 4, oc div 4, ky * KW + kx)
           < UP_DIV OC 4 * UP_DIV C 4 * (KH * KW)"
  unfolding block_number_def prod.case
  by (intro mult_bound div4_less_UP_DIV assms)

lemma packed_index_bound:
  assumes "oc < OC" "ic < C" "ky < KH" "kx < KW"
  shows "packed_index C KH KW oc ic ky kx < ALIGN_UP4 OC * ALIGN_UP4 C * KH * KW"
proof -
  let ?b = "block_number (UP_DIV C 4) KH KW (ic div 4, oc div 4, ky * KW + kx)"
  have lane: "4 * (ic mod 4) + oc mod 4 < 16" by arith
  have "?b * 16 + (4 * (ic mod 4) + oc mod 4) < (UP_DIV OC 4 * UP_DIV C 4 * (KH * KW)) * 16"
    by (intro mult_bound block_number_bound assms lane)
  then show ?thesis
    by (simp add: packed_index_def ALIGN_UP4_eq mult.commute mult.left_commute)
qed


lemma div_mult_add: "(b::nat) < B \<Longrightarrow> (a * B + b) div B = a"
  by simp

lemma mod_mult_add: "(b::nat) < B \<Longrightarrow> (a * B + b) mod B = b"
  by simp

lemma packed_index_decode:
  assumes "ic < C" "ky < KH" "kx < KW"
  shows "packed_oc C KH KW (packed_index C KH KW oc ic ky kx) = oc"
    and "packed_ic C KH KW (packed_index C KH KW oc ic ky kx) = ic"
    and "packed_index C KH KW oc ic ky kx div 16 mod (KH * KW) = ky * KW + kx"
proof -
  let ?lane = "4 * (ic mod 4) + oc mod 4"
  let ?z = "ky * KW + kx"
  let ?yx = "oc div 4 * UP_DIV C 4 + ic div 4"
  let ?j = "packed_index C KH KW oc ic ky kx"
  have j: "?j = (?yx * (KH * KW) + ?z) * 16 + ?lane"
    by (simp add: packed_index_def block_number_def)
  have lane: "?lane < 16" by arith
  have z: "?z < KH * KW" by (intro mult_bound assms)
  have x: "ic div 4 < UP_DIV C 4" by (intro div4_less_UP_DIV assms)
  have d16: "?j div 16 = ?yx * (KH * KW) + ?z"
    unfolding j using lane by (rule div_mult_add)
  have m16: "?j mod 16 = ?lane"
    unfolding j using lane by (rule mod_mult_add)
  have dz: "?j div 16 div (KH * KW) = ?yx"
    unfolding d16 using z by (rule div_mult_add)
  show "?j div 16 mod (KH * KW) = ?z"
    unfolding d16 using z by (rule mod_mult_add)
  have dy: "?j div 16 div (KH * KW) div UP_DIV C 4 = oc div 4"
    unfolding dz using x by (rule div_mult_add)
  have dx: "?j div 16 div (KH * KW) mod UP_DIV C 4 = ic div 4"
    unfolding dz using x by (rule mod_mult_add)
  have m4: "?j mod 4 = oc mod 4"
  proof -
    have "?j mod 4 = ?j mod 16 mod 4" by (simp add: mod_mod_cancel)
    also have "\<dots> = oc mod 4" unfolding m16 by simp
    finally show ?thesis .
  qed
  show "packed_oc C KH KW ?j = oc"
    unfolding packed_oc_def dy m4 by simp
  show "packed_ic C KH KW ?j = ic"
    unfolding packed_ic_def dx m16 by simp
qed

lemma packed_index_inj:
  assumes "ic < C" "ky < KH" "kx < KW" "ic' < C" "ky' < KH" "kx' < KW"
    and eq: "packed_index C KH KW oc ic ky kx = packed_index C KH KW oc' ic' ky' kx'"
  shows "oc = oc' \<and> ic = ic' \<and> ky = ky' \<and> kx = kx'"
proof -
  have "oc = oc'"
    using packed_index_decode(1)[OF assms(1-3), of oc] packed_index_decode(1)[OF assms(4-6), of oc'] eq
    by simp
  moreover have "ic = ic'"
    using packed_index_decode(2)[OF assms(1-3), of oc] packed_index_decode(2)[OF assms(4-6), of oc'] eq
    by simp
  moreover have z: "ky * KW + kx = ky' * KW + kx'"
    using packed_index_decode(3)[OF assms(1-3), of oc] packed_index_decode(3)[OF assms(4-6), of oc'] eq
    by simp
  moreover have "ky = ky'"
    using arg_cong[OF z, of "\<lambda>n. n div KW"] assms by simp
  moreover have "kx = kx'"
    using arg_cong[OF z, of "\<lambda>n. n mod KW"] assms by simp
  ultimately show ?thesis by simp
qed


lemma Suc_mult_le: "i < n \<Longrightarrow> i * m + m \<le> n * (m::nat)"
proof -
  assume "i < n"
  then have "Suc i * m \<le> n * m" by (intro mult_le_mono1) simp
  then show ?thesis by simp
qed

lemma repack_ic_scatter:
  assumes "r + ic * (KH * KW) + KH * KW \<le> length src"
  shows "repack_ic src KH KW dst_oc b ic (mem, r + ic * (KH * KW)) =
           with_ridx (r + ic * (KH * KW) + KH * KW)
             (scatter (writes_ic src KH KW dst_oc b r ic) mem)"
proof -
  let ?r = "r + ic * (KH * KW)"
  let ?d = "dst_oc + ic div 4 * KW * KH * 16"
  have "for_each (repack_ky src KW ?d (ic mod 4) b) [0..<KH] (mem, ?r) =
        with_ridx (?r + KH * KW)
          (scatter (concat (map (writes_ky src KW ?d (ic mod 4) b ?r) [0..<KH])) mem)"
  proof (rule loop_as_scatter)
    fix ky m assume ky: "ky < KH"
    have "ky * KW + KW \<le> KH * KW" using ky by (rule Suc_mult_le)
    then have "?r + ky * KW + KW \<le> length src" using assms by linarith
    then show "repack_ky src KW ?d (ic mod 4) b ky (m, ?r + ky * KW) =
        with_ridx (?r + ky * KW + KW) (scatter (writes_ky src KW ?d (ic mod 4) b ?r ky) m)"
      by (rule repack_ky_scatter)
  qed
  then show ?thesis by (simp add: repack_ic_def writes_ic_def)
qed

lemma repack_oc_scatter:
  assumes "oc * (C * (KH * KW)) + C * (KH * KW) \<le> length src"
  shows "repack_oc src C KH KW sz oc (mem, oc * (C * (KH * KW))) =
           with_ridx (oc * (C * (KH * KW)) + C * (KH * KW))
             (scatter (writes_oc src C KH KW sz oc) mem)"
proof -
  let ?r = "oc * (C * (KH * KW))"
  have "for_each (repack_ic src KH KW (oc div 4 * sz) (oc mod 4)) [0..<C] (mem, ?r) =
        with_ridx (?r + C * (KH * KW))
          (scatter (concat (map (writes_ic src KH KW (oc div 4 * sz) (oc mod 4) ?r) [0..<C])) mem)"
  proof (rule loop_as_scatter)
    fix ic m assume ic: "ic < C"
    have "ic * (KH * KW) + KH * KW \<le> C * (KH * KW)" using ic by (rule Suc_mult_le)
    then have "?r + ic * (KH * KW) + KH * KW \<le> length src" using assms by linarith
    then show "repack_ic src KH KW (oc div 4 * sz) (oc mod 4) ic (m, ?r + ic * (KH * KW)) =
        with_ridx (?r + ic * (KH * KW) + KH * KW)
          (scatter (writes_ic src KH KW (oc div 4 * sz) (oc mod 4) ?r ic) m)"
      by (rule repack_ic_scatter)
  qed
  then show ?thesis by (simp add: repack_oc_def writes_oc_def)
qed

lemma repack_loops_scatter:
  assumes "OC * (C * (KH * KW)) \<le> length src"
  shows "for_each (repack_oc src C KH KW sz) [0..<OC] (mem, 0) =
           with_ridx (OC * (C * (KH * KW)))
             (scatter (concat (map (writes_oc src C KH KW sz) [0..<OC])) mem)"
proof -
  have "for_each (repack_oc src C KH KW sz) [0..<OC] (mem, 0) =
           with_ridx (0 + OC * (C * (KH * KW)))
             (scatter (concat (map (writes_oc src C KH KW sz) [0..<OC])) mem)"
  proof (rule loop_as_scatter)
    fix oc m assume oc: "oc < OC"
    have "oc * (C * (KH * KW)) + C * (KH * KW) \<le> OC * (C * (KH * KW))"
      using oc by (rule Suc_mult_le)
    then have "oc * (C * (KH * KW)) + C * (KH * KW) \<le> length src" using assms by linarith
    then show "repack_oc src C KH KW sz oc (m, 0 + oc * (C * (KH * KW))) =
        with_ridx (0 + oc * (C * (KH * KW)) + C * (KH * KW))
          (scatter (writes_oc src C KH KW sz oc) m)"
      by (simp add: repack_oc_scatter)
  qed
  then show ?thesis by simp
qed


lemma in_writes_ky:
  "(j, v) \<in> set (writes_ky src KW d a b r ky) \<longleftrightarrow>
     (\<exists>kx<KW. j = d + ky * KW * 16 + kx * 16 + (4 * a + b) \<and> v = src ! (r + ky * KW + kx))"
  by (auto simp: writes_ky_def)

lemma in_writes_ic:
  "(j, v) \<in> set (writes_ic src KH KW d b r ic) \<longleftrightarrow>
     (\<exists>ky<KH. \<exists>kx<KW. j = d + ic div 4 * KW * KH * 16 + ky * KW * 16 + kx * 16 + (4 * (ic mod 4) + b)
        \<and> v = src ! (r + ic * (KH * KW) + ky * KW + kx))"
  by (simp add: writes_ic_def in_writes_ky Bex_def)

lemma in_writes_oc:
  "(j, v) \<in> set (writes_oc src C KH KW sz oc) \<longleftrightarrow>
     (\<exists>ic<C. \<exists>ky<KH. \<exists>kx<KW.
        j = oc div 4 * sz + ic div 4 * KW * KH * 16 + ky * KW * 16 + kx * 16 + (4 * (ic mod 4) + oc mod 4)
        \<and> v = src ! (oc * (C * (KH * KW)) + ic * (KH * KW) + ky * KW + kx))"
  by (simp add: writes_oc_def in_writes_ic Bex_def)

lemma all_writes_iff:
  "(j, v) \<in> set (concat (map (writes_oc src C KH KW (KW * KH * UP_DIV C 4 * 16)) [0..<OC])) \<longleftrightarrow>
     (\<exists>oc<OC. \<exists>ic<C. \<exists>ky<KH. \<exists>kx<KW.
        j = packed_index C KH KW oc ic ky kx \<and> v = src ! dense_index C KH KW oc ic ky kx)"
proof -
  have addr: "oc div 4 * (KW * KH * UP_DIV C 4 * 16) + ic div 4 * KW * KH * 16
        + ky * KW * 16 + kx * 16 + (4 * (ic mod 4) + oc mod 4) = packed_index C KH KW oc ic ky kx"
    for oc ic ky kx
    by (simp add: packed_index_def block_number_def algebra_simps)
  have ridx: "oc * (C * (KH * KW)) + ic * (KH * KW) + ky * KW + kx = dense_index C KH KW oc ic ky kx"
    for oc ic ky kx
    by (simp add: dense_index_def algebra_simps)
  show ?thesis
    by (simp add: in_writes_oc Bex_def addr ridx)
qed


lemma store_float_length: "store_float mem i v = Inr mem' \<Longrightarrow> length mem' = length mem"
  by (auto simp: store_float_def split: if_splits)

lemma scatter_ok:
  "\<forall>w\<in>set ws. fst w < length mem \<Longrightarrow>
     \<exists>mem'. scatter ws mem = Inr mem' \<and> length mem' = length mem"
proof (induction ws arbitrary: mem)
  case Nil
  show ?case by simp
next
  case (Cons w ws)
  have "\<forall>u\<in>set ws. fst u < length (mem[fst w := Some (snd w)])"
    using Cons.prems by simp
  from Cons.IH[OF this] show ?case
    using Cons.prems by (simp add: store_float_def)
qed

lemma scatter_untouched:
  "scatter ws mem = Inr mem' \<Longrightarrow> j \<notin> fst ` set ws \<Longrightarrow> mem' ! j = mem ! j"
proof (induction ws arbitrary: mem)
  case Nil
  then show ?case by simp
next
  case (Cons w ws)
  from Cons.prems(1) have w: "fst w < length mem"
    and rest: "scatter ws (mem[fst w := Some (snd w)]) = Inr mem'"
    by (auto simp: store_float_def split: if_splits)
  from Cons.prems(2) have "j \<noteq> fst w" and "j \<notin> fst ` set ws" by auto
  with Cons.IH[OF rest] show ?case by simp
qed

lemma scatter_written:
  "scatter ws mem = Inr mem' \<Longrightarrow> (j, x) \<in> set ws \<Longrightarrow>
     (\<And>v. (j, v) \<in> set ws \<Longrightarrow> v = x) \<Longrightarrow> mem' ! j = Some x"
proof (induction ws arbitrary: mem)
  case Nil
  then show ?case by simp
next
  case (Cons w ws)
  from Cons.prems(1) have w: "fst w < length mem"
    and rest: "scatter ws (mem[fst w := Some (snd w)]) = Inr mem'"
    by (auto simp: store_float_def split: if_splits)
  have uniq: "v = x" if "(j, v) \<in> set ws" for v
    by (rule Cons.prems(3)) (use that in simp)
  show ?case
  proof (cases "j \<in> fst ` set ws")
    case True
    then obtain v where v: "(j, v) \<in> set ws" by force
    from uniq[OF v] v have "(j, x) \<in> set ws" by simp
    then show ?thesis
      by (rule Cons.IH[OF rest]) (rule uniq)
  next
    case False
    with Cons.prems(2) have "w = (j, x)" by force
    with scatter_untouched[OF rest False] w show ?thesis by simp
  qed
qed

lemma map_upt_shift: "map f [a..<a + k] = map (\<lambda>j. f (a + j)) [0..<k]"
  by (induction k) simp_all

lemma concat_map_flatten:
  "concat (map (\<lambda>i. map (\<lambda>j. f (i * m + j)) [0..<m]) [0..<n]) = map f [0..<n * m]"
proof (induction n)
  case 0
  show ?case by simp
next
  case (Suc n)
  have split: "[0..<n * m + m] = [0..<n * m] @ [n * m..<n * m + m]"
    by (rule upt_add_eq_append) simp
  have shift: "map f [n * m..<n * m + m] = map (\<lambda>j. f (n * m + j)) [0..<m]"
    by (rule map_upt_shift)
  have "map f [0..<Suc n * m] = map f [0..<n * m + m]"
    by (simp add: add.commute)
  also have "\<dots> = map f [0..<n * m] @ map (\<lambda>j. f (n * m + j)) [0..<m]"
    unfolding split map_append shift ..
  finally show ?case using Suc by simp
qed


lemma dense_enumeration:
  "concat (map (\<lambda>oc. concat (map (\<lambda>ic. concat (map (\<lambda>ky.
       map (\<lambda>kx. g (dense_index C KH KW oc ic ky kx)) [0..<KW])
         [0..<KH])) [0..<C])) [0..<OC]) = map g [0..<OC * C * KH * KW]"
proof -
  have l1: "concat (map (\<lambda>ky. map (\<lambda>kx. g (dense_index C KH KW oc ic ky kx)) [0..<KW]) [0..<KH])
      = map (\<lambda>t. g ((oc * C + ic) * (KH * KW) + t)) [0..<KH * KW]" for oc ic
  proof -
    have "dense_index C KH KW oc ic ky kx = (oc * C + ic) * (KH * KW) + (ky * KW + kx)" for ky kx
      by (simp add: dense_index_def algebra_simps)
    then show ?thesis
      using concat_map_flatten[of "\<lambda>t. g ((oc * C + ic) * (KH * KW) + t)" KW KH] by simp
  qed
  have l2: "concat (map (\<lambda>ic. map (\<lambda>t. g ((oc * C + ic) * (KH * KW) + t)) [0..<KH * KW]) [0..<C])
      = map (\<lambda>s. g (oc * (C * (KH * KW)) + s)) [0..<C * (KH * KW)]" for oc
  proof -
    have "(oc * C + ic) * (KH * KW) + t = oc * (C * (KH * KW)) + (ic * (KH * KW) + t)" for ic t
      by (simp add: algebra_simps)
    then show ?thesis
      using concat_map_flatten[of "\<lambda>s. g (oc * (C * (KH * KW)) + s)" "KH * KW" C]
      by (simp add: add.assoc)
  qed
  have l3: "concat (map (\<lambda>oc. map (\<lambda>s. g (oc * (C * (KH * KW)) + s)) [0..<C * (KH * KW)]) [0..<OC])
      = map g [0..<OC * (C * (KH * KW))]"
    using concat_map_flatten[of g "C * (KH * KW)" OC] by simp
  show ?thesis
    unfolding l1 l2 l3 by (simp add: mult.assoc)
qed

lemma repack_scatter:
  assumes "OC * C * KH * KW \<le> length weights"
  shows "\<exists>mem. kernelNCHW_OCHW_repack_O4C4HWi4o4 True weights OC C KH KW = Inr mem
           \<and> length mem = ALIGN_UP4 OC * ALIGN_UP4 C * KH * KW
           \<and> scatter (concat (map (writes_oc weights C KH KW (KW * KH * UP_DIV C 4 * 16)) [0..<OC]))
                (replicate (ALIGN_UP4 OC * ALIGN_UP4 C * KH * KW) (Some 0)) = Inr mem"
proof -
  let ?n = "ALIGN_UP4 OC * ALIGN_UP4 C * KH * KW"
  let ?ws = "concat (map (writes_oc weights C KH KW (KW * KH * UP_DIV C 4 * 16)) [0..<OC])"
  have "\<forall>w\<in>set ?ws. fst w < length (replicate ?n (Some (0::float)))"
  proof
    fix w assume "w \<in> set ?ws"
    then have "(fst w, snd w) \<in> set ?ws" by simp
    then obtain oc ic ky kx where "oc < OC" "ic < C" "ky < KH" "kx < KW"
      and "fst w = packed_index C KH KW oc ic ky kx"
      unfolding all_writes_iff by blast
    then show "fst w < length (replicate ?n (Some (0::float)))"
      using packed_index_bound[of oc OC ic C ky KH kx KW] by simp
  qed
  from scatter_ok[OF this] obtain mem where
    mem: "scatter ?ws (replicate ?n (Some 0)) = Inr mem" and len: "length mem = ?n"
    by auto
  have "OC * (C * (KH * KW)) \<le> length weights" using assms by (simp add: mult.assoc)
  from repack_loops_scatter[OF this, of "KW * KH * UP_DIV C 4 * 16" "replicate ?n (Some 0)"]
  have "kernelNCHW_OCHW_repack_O4C4HWi4o4 True weights OC C KH KW = Inr mem"
    by (simp add: kernelNCHW_OCHW_repack_O4C4HWi4o4_def mem with_ridx_def)
  with mem len show ?thesis by blast
qed



text \<open>
  Claim C1, amended. For a dense weight buffer of shape \<open>[OC, C, KH, KW]\<close>, when
  mapping the destination buffer yields a non-null pointer,
  \<open>kernelNCHW_OCHW_repack_O4C4HWi4o4\<close> returns a buffer of
  \<open>ALIGN_UP4 OC * ALIGN_UP4 C * KH * KW\<close> floats in which the weight \<open>(oc, ic, ky, kx)\<close>
  sits in lane \<open>4 * (ic mod 4) + oc mod 4\<close> of the 16-float block at block coordinates
  \<open>(ic div 4, oc div 4, ky * KW + kx)\<close>; every other float is the zero the buffer was
  filled with first, in particular every lane whose output or input channel lies beyond
  \<open>OC\<close> or \<open>C\<close>; and unpacking by the inverse index arithmetic gives back the dense
  buffer. No read or write of the loops leaves its array.
\<close>

theorem repack_round_trip:
  assumes "mapped"
    and "length weights = OC * C * KH * KW"
    and "int_arith_exact OC C KH KW"
  shows "\<exists>mem. kernelNCHW_OCHW_repack_O4C4HWi4o4 mapped weights OC C KH KW = Inr mem
     \<and> length mem = ALIGN_UP4 OC * ALIGN_UP4 C * KH * KW
     \<and> (\<forall>oc<OC. \<forall>ic<C. \<forall>ky<KH. \<forall>kx<KW.
           packed_index C KH KW oc ic ky kx < length mem
           \<and> mem ! packed_index C KH KW oc ic ky kx
               = Some (weights ! dense_index C KH KW oc ic ky kx))
     \<and> (\<forall>j<length mem.
           (\<forall>oc<OC. \<forall>ic<C. \<forall>ky<KH. \<forall>kx<KW. j \<noteq> packed_index C KH KW oc ic ky kx)
           \<longrightarrow> mem ! j = Some 0)
     \<and> (\<forall>j<length mem.
           OC \<le> packed_oc C KH KW j \<or> C \<le> packed_ic C KH KW j \<longrightarrow> mem ! j = Some 0)
     \<and> unpack_O4C4HWi4o4 mem OC C KH KW = map Some weights"
proof -
  let ?n = "ALIGN_UP4 OC * ALIGN_UP4 C * KH * KW"
  let ?ws = "concat (map (writes_oc weights C KH KW (KW * KH * UP_DIV C 4 * 16)) [0..<OC])"
  have "OC * C * KH * KW \<le> length weights" using assms(2) by simp
  from repack_scatter[OF this] obtain mem where
    res: "kernelNCHW_OCHW_repack_O4C4HWi4o4 True weights OC C KH KW = Inr mem"
    and len: "length mem = ?n"
    and sc: "scatter ?ws (replicate ?n (Some 0)) = Inr mem"
    by blast
  have written: "packed_index C KH KW oc ic ky kx < length mem
      \<and> mem ! packed_index C KH KW oc ic ky kx = Some (weights ! dense_index C KH KW oc ic ky kx)"
    if r: "oc < OC" "ic < C" "ky < KH" "kx < KW" for oc ic ky kx
  proof
    show "packed_index C KH KW oc ic ky kx < length mem"
      unfolding len using r by (rule packed_index_bound)
    have mem: "(packed_index C KH KW oc ic ky kx, weights ! dense_index C KH KW oc ic ky kx) \<in> set ?ws"
      unfolding all_writes_iff using r by blast
    show "mem ! packed_index C KH KW oc ic ky kx = Some (weights ! dense_index C KH KW oc ic ky kx)"
      using sc mem
    proof (rule scatter_written)
      fix v assume "(packed_index C KH KW oc ic ky kx, v) \<in> set ?ws"
      then obtain oc' ic' ky' kx' where r': "oc' < OC" "ic' < C" "ky' < KH" "kx' < KW"
        and eq: "packed_index C KH KW oc ic ky kx = packed_index C KH KW oc' ic' ky' kx'"
        and v: "v = weights ! dense_index C KH KW oc' ic' ky' kx'"
        unfolding all_writes_iff by blast
      from packed_index_inj[OF r(2-4) r'(2-4) eq] v
      show "v = weights ! dense_index C KH KW oc ic ky kx" by simp
    qed
  qed
  have untouched: "mem ! j = Some 0"
    if j: "j < length mem"
      and no: "\<forall>oc<OC. \<forall>ic<C. \<forall>ky<KH. \<forall>kx<KW. j \<noteq> packed_index C KH KW oc ic ky kx" for j
  proof -
    have "j \<notin> fst ` set ?ws"
    proof
      assume "j \<in> fst ` set ?ws"
      then obtain v where "(j, v) \<in> set ?ws" by force
      then show False unfolding all_writes_iff using no by blast
    qed
    from scatter_untouched[OF sc this] j len show ?thesis by simp
  qed
  have padding: "mem ! j = Some 0"
    if j: "j < length mem" and out: "OC \<le> packed_oc C KH KW j \<or> C \<le> packed_ic C KH KW j" for j
  proof (rule untouched[OF j], intro allI impI notI)
    fix oc ic ky kx
    assume r: "oc < OC" "ic < C" "ky < KH" "kx < KW" and eq: "j = packed_index C KH KW oc ic ky kx"
    from packed_index_decode(1,2)[OF r(2-4), of oc] eq
    have "packed_oc C KH KW j = oc" "packed_ic C KH KW j = ic" by simp_all
    with out r show False by simp
  qed
  have "unpack_O4C4HWi4o4 mem OC C KH KW =
      concat (map (\<lambda>oc. concat (map (\<lambda>ic. concat (map (\<lambda>ky.
       map (\<lambda>kx. Some (weights ! dense_index C KH KW oc ic ky kx)) [0..<KW])
         [0..<KH])) [0..<C])) [0..<OC])"
    unfolding unpack_O4C4HWi4o4_def
    by (intro arg_cong[where f = concat] map_cong refl) (simp add: written)
  also have "\<dots> = map (\<lambda>i. Some (weights ! i)) [0..<OC * C * KH * KW]"
    by (rule dense_enumeration)
  also have "\<dots> = map Some weights"
    unfolding assms(2)[symmetric] by (simp add: map_nth flip: map_map[unfolded comp_def])
  finally have unpack: "unpack_O4C4HWi4o4 mem OC C KH KW = map Some weights" .
  show ?thesis
  proof (intro exI[of _ mem] conjI)
    show "kernelNCHW_OCHW_repack_O4C4HWi4o4 mapped weights OC C KH KW = Inr mem"
      using res assms(1) by simp
    show "length mem = ?n" by (rule len)
    show "\<forall>oc<OC. \<forall>ic<C. \<forall>ky<KH. \<forall>kx<KW.
           packed_index C KH KW oc ic ky kx < length mem
           \<and> mem ! packed_index C KH KW oc ic ky kx
               = Some (weights ! dense_index C KH KW oc ic ky kx)"
      using written by blast
    show "\<forall>j<length mem.
           (\<forall>oc<OC. \<forall>ic<C. \<forall>ky<KH. \<forall>kx<KW. j \<noteq> packed_index C KH KW oc ic ky kx)
           \<longrightarrow> mem ! j = Some 0"
      using untouched by blast
    show "\<forall>j<length mem.
           OC \<le> packed_oc C KH KW j \<or> C \<le> packed_ic C KH KW j \<longrightarrow> mem ! j = Some 0"
      using padding by blast
    show "unpack_O4C4HWi4o4 mem OC C KH KW = map Some weights" by (rule unpack)
  qed
qed

theorem repack_round_trip_witness:
  "\<exists>mem. kernelNCHW_OCHW_repack_O4C4HWi4o4 True [1, 2] 1 1 1 2 = Inr mem
     \<and> length mem = 32
     \<and> unpack_O4C4HWi4o4 mem 1 1 1 2 = [Some 1, Some 2]"
proof -
  have "True" and "length [1, 2 :: float] = 1 * 1 * 1 * 2" and "int_arith_exact 1 1 1 2"
    by (simp_all add: int_arith_exact_def ALIGN_UP4_def ROUND_UP_def INT_MAX_def)
  from repack_round_trip[OF this] obtain mem where
    "kernelNCHW_OCHW_repack_O4C4HWi4o4 True [1, 2] 1 1 1 2 = Inr mem"
    "length mem = ALIGN_UP4 1 * ALIGN_UP4 1 * 1 * 2"
    "unpack_O4C4HWi4o4 mem 1 1 1 2 = map Some [1, 2]"
    by blast
  then show ?thesis
    by (simp add: ALIGN_UP4_def ROUND_UP_def)
qed


text \<open>
  Claim C1, as stated, when \<open>mappedMemory.ptr()\<close> is null: nothing is zeroed or
  written, the buffer is returned as allocated, and unpacking it does not give back the
  weights.
\<close>

theorem repack_unmapped_counterexample:
  "kernelNCHW_OCHW_repack_O4C4HWi4o4 False [1, 2] 1 1 1 2 = Inr (replicate 32 None)
   \<and> replicate 32 None ! 1 \<noteq> Some (0 :: float)
   \<and> unpack_O4C4HWi4o4 (replicate 32 None) 1 1 1 2 = [None, None]
   \<and> [None, None] \<noteq> map Some [1, 2 :: float]"
proof -
  have r: "[0..<2] = [0, 1]" by (simp add: eval_nat_numeral)
  show ?thesis
    by (simp add: kernelNCHW_OCHW_repack_O4C4HWi4o4_def unpack_O4C4HWi4o4_def ALIGN_UP4_def
          ROUND_UP_def packed_index_def block_number_def UP_DIV_def r)
qed

section \<open>Proofs: prepacked weight image\<close>





text \<open>
  The width \<open>ALIGN_UP4 C\<close> is what the repacked buffer needs: at four floats a texel the
  image holds exactly the floats of the buffer. A buffer of
  \<open>ceil(OC / 4) * ceil(C / 4) * KH * KW\<close> floats would be too small for the writes of the
  repacking loops (for \<open>OC = C = 4\<close> the last weight goes to offset 15).
\<close>

lemma prepack_image_holds_repacked_buffer:
  "(case imageSize (conv2d_prepack_weights_image_sizes OC C KH KW) of
      (w, h, d) \<Rightarrow> 4 * (w * h * d))
     = ALIGN_UP4 OC * ALIGN_UP4 C * KH * KW"
  by (simp add: conv2d_prepack_weights_image_sizes_def ALIGN_UP4_eq)

lemma repack_writes_beyond_ceil_sized_buffer:
  "packed_index 4 1 1 3 3 0 0 = 15 \<and> UP_DIV 4 4 * UP_DIV 4 4 * 1 * 1 = 1"
  by (simp add: packed_index_def block_number_def UP_DIV_def)

section \<open>Proofs: barriers\<close>

text \<open>
  Claim C3 fails on three operators: \<open>upsample_nearest2d\<close>, \<open>adaptive_avg_pool2d\<close>
  and \<open>max_pool2d\<close> record the barrier of the input image and the dispatch, and no
  barrier of the output image.
\<close>

theorem pooling_ops_no_output_barrier:
  "map_sum id commandBuffer
     (upsample_nearest2d output input IH IW OH OW N0 C0 scaleH scaleW)
     = Inr [AddImageMemoryBarrierToShaderRead (image_of input),
            DispatchCommandBuffer OW OH (N0 * C0) (Some (8, 8, 1))]
   \<and> map_sum id commandBuffer (adaptive_avg_pool2d output input IH IW OH OW N0 C0)
     = Inr [AddImageMemoryBarrierToShaderRead (image_of input),
            DispatchCommandBuffer OW OH (N0 * C0) (Some (8, 8, 1))]
   \<and> map_sum id commandBuffer (max_pool2d output input a)
     = Inr [AddImageMemoryBarrierToShaderRead (image_of input),
            DispatchCommandBuffer (pool_oW a) (pool_oH a) (pool_n a * pool_c a)
              (Some (8, 8, 1))]"
  by (simp add: upsample_nearest2d_def adaptive_avg_pool2d_def max_pool2d_def Let_def)

text \<open>The other operators start their command buffer with the barrier of the output.\<close>

lemma add_output_barrier:
  "add output input0 input1 alpha = Inr u \<Longrightarrow>
     commandBuffer u ! 0 = AddImageMemoryBarrierToGeneral (image_of output)"
  by (auto simp: add_def TORCH_INTERNAL_ASSERT_def Let_def split: if_splits)

lemma scalar_op_output_barrier:
  "scalar_op name output input s = Inr u \<Longrightarrow>
     commandBuffer u ! 0 = AddImageMemoryBarrierToGeneral (image_of output)"
  by (auto simp: scalar_op_def bind_result_def size_at_def Let_def split: if_splits)

lemma clamp_output_barrier:
  "clamp output input lo hi = Inr u \<Longrightarrow>
     commandBuffer u ! 0 = AddImageMemoryBarrierToGeneral (image_of output)"
  by (auto simp: clamp_def bind_result_def size_at_def Let_def split: if_splits)

lemma mean_output_barrier:
  "mean output input = Inr u \<Longrightarrow>
     commandBuffer u ! 0 = AddImageMemoryBarrierToGeneral (image_of output)"
  by (auto simp: mean_def bind_result_def size_at_def Let_def split: if_splits)

lemma addmm_output_barrier:
  "addmm output t m1 m2 beta alpha = Inr u \<Longrightarrow>
     commandBuffer u ! 0 = AddImageMemoryBarrierToGeneral (image_of output)"
  by (auto simp: addmm_def TORCH_INTERNAL_ASSERT_def Let_def split: if_splits option.splits)

lemma conv2d_depthwise_output_barrier:
  "conv2d_depthwise output input weight biasBuffer params lo hi = Inr u \<Longrightarrow>
     commandBuffer u ! 0 = AddImageMemoryBarrierToGeneral (image_of output)"
  by (auto simp: conv2d_depthwise_def TORCH_INTERNAL_ASSERT_def bind_result_def size_at_def
        Let_def split: if_splits)

lemma conv2d_image_buffer_output_barrier:
  "conv2d_image_buffer output input kernelImage biasBuffer params lo hi = Inr u \<Longrightarrow>
     commandBuffer u ! 0 = AddImageMemoryBarrierToGeneral (image_of output)"
  by (auto simp: conv2d_image_buffer_def TORCH_INTERNAL_ASSERT_def bind_result_def size_at_def
        Let_def split: if_splits)


section \<open>Proofs: elementwise add and the scalar operators\<close>

lemma length_pad4: "length s \<le> 4 \<Longrightarrow> length (pad4 s) = 4"
  by (simp add: pad4_def)

lemma add_rank_assert:
  "4 < dim output \<or> 4 < dim input0 \<or> 4 < dim input1 \<Longrightarrow>
     \<exists>expr msg. add output input0 input1 alpha = Inl (InternalAssert expr msg)"
  by (auto simp: add_def TORCH_INTERNAL_ASSERT_def Let_def)

lemma add_shape_assert:
  assumes "dim output \<le> 4" "dim input0 \<le> 4" "dim input1 \<le> 4"
    and "\<not> (pad4 (sizes output) = pad4 (sizes input0) \<and> pad4 (sizes input0) = pad4 (sizes input1))"
  shows "add output input0 input1 alpha =
           Inl (InternalAssert ''(os4 == i0s4) && (i0s4 == i1s4)''
                  ''Vulkan add expects the same dimensions for all operands'')"
  using assms by (simp add: add_def TORCH_INTERNAL_ASSERT_def Let_def)

lemma add_dispatches:
  assumes "dim output \<le> 4" "dim input0 \<le> 4" "dim input1 \<le> 4"
    and "pad4 (sizes output) = pad4 (sizes input0)" "pad4 (sizes input0) = pad4 (sizes input1)"
  shows "\<exists>u. add output input0 input1 alpha = Inr u
           \<and> last (commandBuffer u) =
               DispatchCommandBuffer (pad4 (sizes output) ! 3) (pad4 (sizes output) ! 2)
                 (pad4 (sizes output) ! 0 * pad4 (sizes output) ! 1) (Some (8, 8, 1))"
  using assms by (simp add: add_def TORCH_INTERNAL_ASSERT_def Let_def)

text \<open>
  Claim C6. Tensor + tensor \<open>add\<close> fails with an assertion when the output or an input
  has more than four dimensions. Otherwise each shape is padded on the left with ones to
  four dimensions, and the call fails with the assertion
  \<open>Vulkan add expects the same dimensions for all operands\<close> unless the three padded
  shapes are equal; when they are equal it dispatches over the padded extents. Nothing
  but the padding reconciles two shapes.
\<close>

theorem add_requires_equal_padded_shapes:
  "(4 < dim output \<or> 4 < dim input0 \<or> 4 < dim input1 \<longrightarrow>
      (\<exists>expr msg. add output input0 input1 alpha = Inl (InternalAssert expr msg)))
   \<and> (dim output \<le> 4 \<and> dim input0 \<le> 4 \<and> dim input1 \<le> 4 \<longrightarrow>
        length (pad4 (sizes output)) = 4 \<and> length (pad4 (sizes input0)) = 4
        \<and> length (pad4 (sizes input1)) = 4
        \<and> pad4 (sizes output) = replicate (4 - dim output) 1 @ sizes output
        \<and> (if pad4 (sizes output) = pad4 (sizes input0)
                \<and> pad4 (sizes input0) = pad4 (sizes input1)
            then \<exists>u. add output input0 input1 alpha = Inr u
                   \<and> last (commandBuffer u) =
                       DispatchCommandBuffer (pad4 (sizes output) ! 3) (pad4 (sizes output) ! 2)
                         (pad4 (sizes output) ! 0 * pad4 (sizes output) ! 1) (Some (8, 8, 1))
            else add output input0 input1 alpha =
                   Inl (InternalAssert ''(os4 == i0s4) && (i0s4 == i1s4)''
                          ''Vulkan add expects the same dimensions for all operands'')))"
proof (intro conjI impI)
  assume "4 < dim output \<or> 4 < dim input0 \<or> 4 < dim input1"
  then show "\<exists>expr msg. add output input0 input1 alpha = Inl (InternalAssert expr msg)"
    by (rule add_rank_assert)
next
  assume r: "dim output \<le> 4 \<and> dim input0 \<le> 4 \<and> dim input1 \<le> 4"
  then show "length (pad4 (sizes output)) = 4" "length (pad4 (sizes input0)) = 4"
    "length (pad4 (sizes input1)) = 4"
    by (simp_all add: length_pad4 dim_def)
  show "pad4 (sizes output) = replicate (4 - dim output) 1 @ sizes output"
    by (simp add: pad4_def dim_def)
  show "if pad4 (sizes output) = pad4 (sizes input0) \<and> pad4 (sizes input0) = pad4 (sizes input1)
        then \<exists>u. add output input0 input1 alpha = Inr u
               \<and> last (commandBuffer u) =
                   DispatchCommandBuffer (pad4 (sizes output) ! 3) (pad4 (sizes output) ! 2)
                     (pad4 (sizes output) ! 0 * pad4 (sizes output) ! 1) (Some (8, 8, 1))
        else add output input0 input1 alpha =
               Inl (InternalAssert ''(os4 == i0s4) && (i0s4 == i1s4)''
                      ''Vulkan add expects the same dimensions for all operands'')"
  proof (cases "pad4 (sizes output) = pad4 (sizes input0) \<and> pad4 (sizes input0) = pad4 (sizes input1)")
    case True
    have "\<exists>u. add output input0 input1 alpha = Inr u
               \<and> last (commandBuffer u) =
                   DispatchCommandBuffer (pad4 (sizes output) ! 3) (pad4 (sizes output) ! 2)
                     (pad4 (sizes output) ! 0 * pad4 (sizes output) ! 1) (Some (8, 8, 1))"
      using r True by (intro add_dispatches) simp_all
    with True show ?thesis by simp
  next
    case False
    have "add output input0 input1 alpha =
               Inl (InternalAssert ''(os4 == i0s4) && (i0s4 == i1s4)''
                      ''Vulkan add expects the same dimensions for all operands'')"
      using r False by (intro add_shape_assert) simp_all
    with False show ?thesis by simp
  qed
qed


theorem add_requires_equal_padded_shapes_witness:
  "(\<exists>expr msg. add (new_tensor 0 [1, 1, 1, 1, 3]) (new_tensor 1 [3]) (new_tensor 2 [3]) 0
       = Inl (InternalAssert expr msg))
   \<and> (\<exists>u. add (new_tensor 0 [3]) (new_tensor 1 [1, 3]) (new_tensor 2 [1, 1, 1, 3]) 0 = Inr u
         \<and> last (commandBuffer u) = DispatchCommandBuffer 3 1 1 (Some (8, 8, 1)))
   \<and> add (new_tensor 0 [2, 3]) (new_tensor 1 [1, 3]) (new_tensor 2 [2, 3]) 0
       = Inl (InternalAssert ''(os4 == i0s4) && (i0s4 == i1s4)''
                ''Vulkan add expects the same dimensions for all operands'')"
  using add_requires_equal_padded_shapes
          [of "new_tensor 0 [1, 1, 1, 1, 3]" "new_tensor 1 [3]" "new_tensor 2 [3]" 0]
        add_requires_equal_padded_shapes
          [of "new_tensor 0 [3]" "new_tensor 1 [1, 3]" "new_tensor 2 [1, 1, 1, 3]" 0]
        add_requires_equal_padded_shapes
          [of "new_tensor 0 [2, 3]" "new_tensor 1 [1, 3]" "new_tensor 2 [2, 3]" 0]
  by (simp add: dim_def new_tensor_def pad4_def eval_nat_numeral)

lemma to_int32_eq: "to_int32 x = signed_take_bit 31 x"
  by (simp add: to_int32_def sint_sbintrunc')

lemma to_int32_mult_left: "to_int32 (to_int32 a * b) = to_int32 (a * b)"
proof -
  have "signed_take_bit 31 (signed_take_bit 31 a * b)
      = signed_take_bit 31 (signed_take_bit 31 (signed_take_bit 31 a) * signed_take_bit 31 b)"
    by (simp only: signed_take_bit_mult)
  also have "\<dots> = signed_take_bit 31 (signed_take_bit 31 a * signed_take_bit 31 b)"
    by simp
  also have "\<dots> = signed_take_bit (31::nat) (a * b)"
    by (rule signed_take_bit_mult)
  finally show ?thesis by (simp add: to_int32_eq)
qed

lemma to_int32_small: "0 \<le> x \<Longrightarrow> x < 2 ^ 31 \<Longrightarrow> to_int32 x = x"
  unfolding to_int32_eq by (rule signed_take_bit_int_eq_self) simp_all

lemma accumulate_int_congruent:
  "accumulate_int xs (to_int32 a) = to_int32 (a * int (prod_list xs))"
proof (induction xs arbitrary: a)
  case Nil
  show ?case by (simp add: accumulate_int_def)
next
  case (Cons x xs)
  have "accumulate_int (x # xs) (to_int32 a) = accumulate_int xs (to_int32 (to_int32 a * int x))"
    by (simp add: accumulate_int_def)
  also have "\<dots> = accumulate_int xs (to_int32 (a * int x))"
    by (simp only: to_int32_mult_left)
  also have "\<dots> = to_int32 (a * int x * int (prod_list xs))" by (rule Cons.IH)
  finally show ?case by (simp add: mult.assoc)
qed

lemma accumulate_int_prod: "accumulate_int xs 1 = to_int32 (int (prod_list xs))"
  using accumulate_int_congruent[of xs 1] by (simp add: to_int32_small)


lemma scalar_op_short_rank:
  "length (sizes input) < 4 \<Longrightarrow>
     \<exists>m. scalar_op name output input s = Inl (UndefinedBehaviour m)"
  by (auto simp: scalar_op_def bind_result_def size_at_def Let_def)

lemma scalar_op_dispatch:
  "4 \<le> length (sizes input) \<Longrightarrow>
     \<exists>u. scalar_op name output input s = Inr u
       \<and> last (commandBuffer u) =
           DispatchCommandBuffer (sizes input ! 3) (sizes input ! 2)
             (unat (word_of_int
                (accumulate_int (take (length (sizes input) - 2) (sizes input)) 1) :: 32 word))
             (Some (8, 8, 1))"
  by (simp add: scalar_op_def bind_result_def size_at_def Let_def)

lemma unat_word_of_int_nat: "n < 2 ^ 31 \<Longrightarrow> unat (word_of_int (int n) :: 32 word) = n"
  by (simp add: unat_of_nat)

lemma channel_count_rank4:
  assumes "length xs = 4" "xs ! 0 * xs ! 1 < 2 ^ 31"
  shows "unat (word_of_int (accumulate_int (take (length xs - 2) xs) 1) :: 32 word)
           = xs ! 0 * xs ! 1"
proof -
  obtain a b c d where xs: "xs = [a, b, c, d]"
    using assms(1) by (auto simp: length_Suc_conv eval_nat_numeral)
  have small: "int (a * b) < 2 ^ 31" using assms(2) xs
    by (metis nth_Cons_0 nth_Cons_Suc One_nat_def of_nat_less_numeral_power_cancel_iff)
  have "accumulate_int [a, b] 1 = int (a * b)"
    unfolding accumulate_int_prod using small by (simp add: to_int32_small)
  moreover have "unat (word_of_int (int (a * b)) :: 32 word) = a * b"
    by (rule unat_word_of_int_nat) (use assms(2) xs in simp)
  ultimately show ?thesis by (simp add: xs)
qed

text \<open>
  Claim C10. \<open>add\<close> and \<open>mul\<close> by a scalar read \<open>sizes[2]\<close> and \<open>sizes[3]\<close>
  whatever the rank of the input: with fewer than four dimensions a read is outside the
  sizes; with four or more there is no rank check and no padding, the dispatch is over
  \<open>W = sizes[3]\<close>, \<open>H = sizes[2]\<close> and the product, narrowed to 32 bits, of all sizes
  but the last two. With exactly four dimensions these are the last two extents and the
  product of the leading two; with more, \<open>sizes[2]\<close> is both \<open>H\<close> and a factor of the
  channel count. Tensor + tensor \<open>add\<close> on the same tensor asserts on a rank above four
  and pads a rank below four.
\<close>

theorem scalar_ops_index_sizes_unchecked:
  "(length (sizes input) < 4 \<longrightarrow>
      (\<exists>m. add_scalar output input s = Inl (UndefinedBehaviour m))
      \<and> (\<exists>m. mul output input s = Inl (UndefinedBehaviour m))
      \<and> (\<exists>u. add input input input s = Inr u))
   \<and> (4 \<le> length (sizes input) \<longrightarrow>
      (\<exists>u. add_scalar output input s = Inr u
         \<and> last (commandBuffer u) =
             DispatchCommandBuffer (sizes input ! 3) (sizes input ! 2)
               (unat (word_of_int
                  (accumulate_int (take (length (sizes input) - 2) (sizes input)) 1) :: 32 word))
               (Some (8, 8, 1)))
      \<and> (\<exists>u. mul output input s = Inr u
         \<and> last (commandBuffer u) =
             DispatchCommandBuffer (sizes input ! 3) (sizes input ! 2)
               (unat (word_of_int
                  (accumulate_int (take (length (sizes input) - 2) (sizes input)) 1) :: 32 word))
               (Some (8, 8, 1))))
   \<and> (length (sizes input) = 4 \<and> sizes input ! 0 * sizes input ! 1 < 2 ^ 31 \<longrightarrow>
      unat (word_of_int
         (accumulate_int (take (length (sizes input) - 2) (sizes input)) 1) :: 32 word)
        = sizes input ! 0 * sizes input ! 1)
   \<and> (4 < length (sizes input) \<longrightarrow>
      sizes input ! 2 \<in> set (take (length (sizes input) - 2) (sizes input))
      \<and> (\<exists>expr msg. add input input input s = Inl (InternalAssert expr msg)))"
proof (intro conjI impI)
  assume short: "length (sizes input) < 4"
  show "\<exists>m. add_scalar output input s = Inl (UndefinedBehaviour m)"
    unfolding add_scalar_def using short by (rule scalar_op_short_rank)
  show "\<exists>m. mul output input s = Inl (UndefinedBehaviour m)"
    unfolding mul_def using short by (rule scalar_op_short_rank)
  have "\<exists>u. add input input input s = Inr u \<and> last (commandBuffer u) =
        DispatchCommandBuffer (pad4 (sizes input) ! 3) (pad4 (sizes input) ! 2)
          (pad4 (sizes input) ! 0 * pad4 (sizes input) ! 1) (Some (8, 8, 1))"
    using short by (intro add_dispatches) (simp_all add: dim_def)
  then show "\<exists>u. add input input input s = Inr u" by blast
next
  assume long: "4 \<le> length (sizes input)"
  show "\<exists>u. add_scalar output input s = Inr u
         \<and> last (commandBuffer u) =
             DispatchCommandBuffer (sizes input ! 3) (sizes input ! 2)
               (unat (word_of_int
                  (accumulate_int (take (length (sizes input) - 2) (sizes input)) 1) :: 32 word))
               (Some (8, 8, 1))"
    unfolding add_scalar_def using long by (rule scalar_op_dispatch)
  show "\<exists>u. mul output input s = Inr u
         \<and> last (commandBuffer u) =
             DispatchCommandBuffer (sizes input ! 3) (sizes input ! 2)
               (unat (word_of_int
                  (accumulate_int (take (length (sizes input) - 2) (sizes input)) 1) :: 32 word))
               (Some (8, 8, 1))"
    unfolding mul_def using long by (rule scalar_op_dispatch)
next
  assume "length (sizes input) = 4 \<and> sizes input ! 0 * sizes input ! 1 < 2 ^ 31"
  then show "unat (word_of_int
         (accumulate_int (take (length (sizes input) - 2) (sizes input)) 1) :: 32 word)
        = sizes input ! 0 * sizes input ! 1"
    by (intro channel_count_rank4) simp_all
next
  assume more: "4 < length (sizes input)"
  have "take (length (sizes input) - 2) (sizes input) ! 2 = sizes input ! 2"
    using more by simp
  moreover have "2 < length (take (length (sizes input) - 2) (sizes input))"
    using more by simp
  ultimately show "sizes input ! 2 \<in> set (take (length (sizes input) - 2) (sizes input))"
    by (metis nth_mem)
  show "\<exists>expr msg. add input input input s = Inl (InternalAssert expr msg)"
    using more by (intro add_rank_assert) (simp add: dim_def)
qed

theorem scalar_ops_index_sizes_unchecked_witness:
  "(\<exists>m. add_scalar (new_tensor 0 [2, 3]) (new_tensor 1 [2, 3]) 0 = Inl (UndefinedBehaviour m))
   \<and> (\<exists>m. mul (new_tensor 0 [5, 2, 3]) (new_tensor 1 [5, 2, 3]) 0 = Inl (UndefinedBehaviour m))
   \<and> (\<exists>u. mul (new_tensor 0 [2, 3, 5, 7]) (new_tensor 1 [2, 3, 5, 7]) 0 = Inr u
         \<and> last (commandBuffer u) = DispatchCommandBuffer 7 5 6 (Some (8, 8, 1)))
   \<and> (\<exists>u. add_scalar (new_tensor 0 [2, 3, 5, 7, 11]) (new_tensor 1 [2, 3, 5, 7, 11]) 0 = Inr u
         \<and> last (commandBuffer u) = DispatchCommandBuffer 7 5 30 (Some (8, 8, 1)))
   \<and> (\<exists>expr msg. add (new_tensor 1 [2, 3, 5, 7, 11]) (new_tensor 1 [2, 3, 5, 7, 11])
         (new_tensor 1 [2, 3, 5, 7, 11]) 0 = Inl (InternalAssert expr msg))"
  using scalar_ops_index_sizes_unchecked[of "new_tensor 1 [2, 3]" "new_tensor 0 [2, 3]" 0]
    scalar_ops_index_sizes_unchecked[of "new_tensor 1 [5, 2, 3]" "new_tensor 0 [5, 2, 3]" 0]
    scalar_ops_index_sizes_unchecked[of "new_tensor 1 [2, 3, 5, 7]" "new_tensor 0 [2, 3, 5, 7]" 0]
    scalar_ops_index_sizes_unchecked
      [of "new_tensor 1 [2, 3, 5, 7, 11]" "new_tensor 0 [2, 3, 5, 7, 11]" 0]
  by (simp add: new_tensor_def accumulate_int_def to_int32_def)


section \<open>Proofs: group count of conv2d\<close>

lemma u32_le: "u32 n \<le> n"
  by (simp add: u32_def)

lemma bias_buffer_outcome:
  assumes "0 < minStorageBufferOffsetAlignment ctx"
    and "\<forall>d. bias = Some d \<longrightarrow> params_OC params \<le> length d"
  shows "bias_buffer ctx bias params =
           Inl (InternalAssert ''dataSize <= bufferSize'' ''buffer size is not enough for data'')
         \<or> (\<exists>b. bias_buffer ctx bias params = Inr b)"
proof (cases bias)
  case None
  then show ?thesis
    using assms(1)
    by (simp add: bias_buffer_def bufferFromOptionalHostData_def TORCH_INTERNAL_ASSERT_def Let_def)
next
  case (Some d)
  have "u32 (4 * params_OC params) div 4 \<le> 4 * params_OC params div 4"
    by (rule div_le_mono) (rule u32_le)
  also have "\<dots> \<le> length d" using assms(2) Some by simp
  finally have "\<not> length d < u32 (4 * params_OC params) div 4" by simp
  then show ?thesis
    using assms(1) Some
    by (simp add: bias_buffer_def bufferFromOptionalHostData_def TORCH_INTERNAL_ASSERT_def Let_def)
qed

lemma conv2d_depthwise_group_assert:
  "params_G params \<noteq> params_C params \<Longrightarrow>
     conv2d_depthwise output input weight biasBuffer params output_min output_max
       = Inl (InternalAssert ''params.G == params.C'' [])"
  by (simp add: conv2d_depthwise_def TORCH_INTERNAL_ASSERT_def)

lemma conv2d_image_buffer_group_assert:
  "params_G params \<noteq> 1 \<Longrightarrow>
     conv2d_image_buffer output input kernelImage biasBuffer params output_min output_max
       = Inl (InternalAssert ''params.G == 1''
                ''Prepacked kernel VImage for non-group conv2d only'')"
  by (simp add: conv2d_image_buffer_def TORCH_INTERNAL_ASSERT_def)

text \<open>
  Claim C5. With a group count \<open>1 < G < C\<close> each of the five \<open>conv2d\<close> entry points
  ends in an assertion failure and submits no dispatch: the two overloads taking a
  kernel image on \<open>params.G == 1\<close>, the overload taking a host weight on its own
  \<open>params.G == params.C\<close>, and the two overloads taking a prepacked weight tensor on
  the \<open>params.G == params.C\<close> of \<open>conv2d_depthwise\<close>. The overload that builds the
  bias buffer from host data does so before it enters \<open>conv2d_depthwise\<close>; given a
  non-zero alignment limit and a bias of at least \<open>OC\<close> floats, the only other way it
  can end is the size assertion of \<open>bufferFromOptionalHostData\<close>.
\<close>

theorem conv2d_unsupported_group_count_fails:
  assumes "1 < params_G params" and "params_G params < params_C params"
  shows "conv2d_image_buffer output input kernelImage biasBuffer params output_min output_max
           = Inl (InternalAssert ''params.G == 1''
                    ''Prepacked kernel VImage for non-group conv2d only'')
     \<and> conv2d_image_host_bias ctx output input kernelImage bias params output_min output_max
           = Inl (InternalAssert ''params.G == 1''
                    ''Prepacked kernel VImage for non-group conv2d only'')
     \<and> (0 < minStorageBufferOffsetAlignment ctx
          \<and> (\<forall>d. bias = Some d \<longrightarrow> params_OC params \<le> length d) \<longrightarrow>
          conv2d_prepacked_host_bias ctx output input weight_prepacked bias params
              output_min output_max
            \<in> {Inl (InternalAssert ''params.G == params.C'' []),
                Inl (InternalAssert ''dataSize <= bufferSize''
                       ''buffer size is not enough for data'')})
     \<and> conv2d_prepacked_tensor_bias output input weight_prepacked bias_tensor params
           output_min output_max
           = Inl (InternalAssert ''params.G == params.C'' [])
     \<and> conv2d_host_weight ctx output input weight bias params output_min output_max
           = ([], Some (InternalAssert ''params.G == params.C''
                          ''Vulkan conv2d supports only no-group and depthwise''))"
proof (intro conjI impI)
  from assms have g1: "params_G params \<noteq> 1" and gc: "params_G params \<noteq> params_C params"
    by simp_all
  show "conv2d_image_buffer output input kernelImage biasBuffer params output_min output_max
           = Inl (InternalAssert ''params.G == 1''
                    ''Prepacked kernel VImage for non-group conv2d only'')"
    using g1 by (rule conv2d_image_buffer_group_assert)
  show "conv2d_image_host_bias ctx output input kernelImage bias params output_min output_max
           = Inl (InternalAssert ''params.G == 1''
                    ''Prepacked kernel VImage for non-group conv2d only'')"
    using g1 by (simp add: conv2d_image_host_bias_def TORCH_INTERNAL_ASSERT_def)
  show "conv2d_prepacked_tensor_bias output input weight_prepacked bias_tensor params
           output_min output_max
           = Inl (InternalAssert ''params.G == params.C'' [])"
    using assms(1) gc
    by (simp add: conv2d_prepacked_tensor_bias_def conv2d_depthwise_group_assert)
  show "conv2d_host_weight ctx output input weight bias params output_min output_max
           = ([], Some (InternalAssert ''params.G == params.C''
                          ''Vulkan conv2d supports only no-group and depthwise''))"
    using assms(1) gc
    by (simp add: conv2d_host_weight_def TORCH_INTERNAL_ASSERT_def submitted_def)
  assume env: "0 < minStorageBufferOffsetAlignment ctx
          \<and> (\<forall>d. bias = Some d \<longrightarrow> params_OC params \<le> length d)"
  then have "bias_buffer ctx bias params =
           Inl (InternalAssert ''dataSize <= bufferSize'' ''buffer size is not enough for data'')
         \<or> (\<exists>b. bias_buffer ctx bias params = Inr b)"
    by (intro bias_buffer_outcome) simp_all
  then show "conv2d_prepacked_host_bias ctx output input weight_prepacked bias params
              output_min output_max
            \<in> {Inl (InternalAssert ''params.G == params.C'' []),
                Inl (InternalAssert ''dataSize <= bufferSize''
                       ''buffer size is not enough for data'')}"
    using assms(1) gc
    by (auto simp: conv2d_prepacked_host_bias_def bind_result_def
          conv2d_depthwise_group_assert)
qed


theorem conv2d_unsupported_group_count_fails_witness:
  "conv2d_image_buffer (new_tensor 0 [1, 4, 8, 8]) (new_tensor 1 [1, 4, 8, 8])
       \<lparr>image_id = 2, image_sizes = (4, 1, 9)\<rparr> (bufferZeros 16)
       \<lparr>params_C = 4, params_H = 8, params_W = 8, params_OC = 4, params_OH = 8,
          params_OW = 8, params_KH = 3, params_KW = 3, params_PY = 1, params_PX = 1,
          params_SY = 1, params_SX = 1, params_DY = 1, params_DX = 1, params_G = 2,
          params_OC_4 = 1, params_C_4 = 1\<rparr> None None
     = Inl (InternalAssert ''params.G == 1''
              ''Prepacked kernel VImage for non-group conv2d only'')
   \<and> conv2d_prepacked_host_bias \<lparr>minStorageBufferOffsetAlignment = 16, map_ok = True, new_image_id = 9\<rparr>
       (new_tensor 0 [1, 4, 8, 8]) (new_tensor 1 [1, 4, 8, 8]) (new_tensor 2 [4, 4, 3, 3]) None
       \<lparr>params_C = 4, params_H = 8, params_W = 8, params_OC = 4, params_OH = 8,
          params_OW = 8, params_KH = 3, params_KW = 3, params_PY = 1, params_PX = 1,
          params_SY = 1, params_SX = 1, params_DY = 1, params_DX = 1, params_G = 2,
          params_OC_4 = 1, params_C_4 = 1\<rparr> None None
     = Inl (InternalAssert ''params.G == params.C'' [])
   \<and> conv2d_prepacked_tensor_bias
       (new_tensor 0 [1, 4, 8, 8]) (new_tensor 1 [1, 4, 8, 8]) (new_tensor 2 [4, 4, 3, 3])
       (new_tensor 3 [4]) \<lparr>params_C = 4, params_H = 8, params_W = 8, params_OC = 4, params_OH = 8,
          params_OW = 8, params_KH = 3, params_KW = 3, params_PY = 1, params_PX = 1,
          params_SY = 1, params_SX = 1, params_DY = 1, params_DX = 1, params_G = 2,
          params_OC_4 = 1, params_C_4 = 1\<rparr> None None
     = Inl (InternalAssert ''params.G == params.C'' [])
   \<and> conv2d_host_weight \<lparr>minStorageBufferOffsetAlignment = 16, map_ok = True, new_image_id = 9\<rparr>
       (new_tensor 0 [1, 4, 8, 8]) (new_tensor 1 [1, 4, 8, 8]) (replicate 144 0) None
       \<lparr>params_C = 4, params_H = 8, params_W = 8, params_OC = 4, params_OH = 8,
          params_OW = 8, params_KH = 3, params_KW = 3, params_PY = 1, params_PX = 1,
          params_SY = 1, params_SX = 1, params_DY = 1, params_DX = 1, params_G = 2,
          params_OC_4 = 1, params_C_4 = 1\<rparr> None None
     = ([], Some (InternalAssert ''params.G == params.C''
                    ''Vulkan conv2d supports only no-group and depthwise''))"
  using conv2d_unsupported_group_count_fails
    [of "\<lparr>params_C = 4, params_H = 8, params_W = 8, params_OC = 4, params_OH = 8,
          params_OW = 8, params_KH = 3, params_KW = 3, params_PY = 1, params_PX = 1,
          params_SY = 1, params_SX = 1, params_DY = 1, params_DX = 1, params_G = 2,
          params_OC_4 = 1, params_C_4 = 1\<rparr>" "new_tensor 0 [1, 4, 8, 8]" "new_tensor 1 [1, 4, 8, 8]"
        "\<lparr>image_id = 2, image_sizes = (4, 1, 9)\<rparr>" "bufferZeros 16" None None
        "\<lparr>minStorageBufferOffsetAlignment = 16, map_ok = True, new_image_id = 9\<rparr>" None "new_tensor 2 [4, 4, 3, 3]" "new_tensor 3 [4]" "replicate 144 0"]
  by (simp add: bias_buffer_def bufferFromOptionalHostData_def TORCH_INTERNAL_ASSERT_def
        conv2d_prepacked_host_bias_def bind_result_def conv2d_depthwise_def u32_def
        ALIGN_UP4_def ROUND_UP_def)


section \<open>Proofs: cat\<close>

lemma tensor_data_synced [simp]:
  "tensor_data (st\<lparr>buffer_bytes := tensor_data st, image_authoritative := False\<rparr>) = tensor_data st"
  by (simp add: tensor_data_def)

lemma cat_step_effect:
  assumes "tensor_id t \<noteq> tensor_id output"
    and "storages dev (tensor_id t) = Some st"
    and "4 * numel t \<le> length (tensor_data st)"
    and "storages dev (tensor_id output) = Some so"
    and "off + 4 * numel t \<le> length (buffer_bytes so)"
  shows "cat_step output t (dev, off) =
    Inr (dev\<lparr>storages := (storages dev)
            (tensor_id t \<mapsto> st\<lparr>buffer_bytes := tensor_data st, image_authoritative := False\<rparr>,
             tensor_id output \<mapsto> so\<lparr>buffer_bytes :=
                 take off (buffer_bytes so) @ take (4 * numel t) (tensor_data st)
                   @ drop (off + 4 * numel t) (buffer_bytes so)\<rparr>),
          actions := actions dev @ [SyncImageToBuffer (tensor_id t),
             CopyBufferToBuffer (tensor_id t) (tensor_id output) (4 * numel t) 0 off]\<rparr>,
         off + 4 * numel t)"
  using assms
  by (simp add: cat_step_def sync_image_to_buffer_def copy_buffer_to_buffer_def
        bind_result_def TORCH_INTERNAL_ASSERT_def Let_def)

lemma cat_loop:
  assumes "cat_ready dev output inputs (off + 4 * sum_list (map numel inputs))"
  shows "\<exists>dev'. for_each (cat_step output) inputs (dev, off)
             = Inr (dev', off + 4 * sum_list (map numel inputs))
     \<and> actions dev' = actions dev @ cat_actions (tensor_id output) inputs off
     \<and> length (output_bytes dev' output) = length (output_bytes dev output)
     \<and> take off (output_bytes dev' output) = take off (output_bytes dev output)
     \<and> take (4 * sum_list (map numel inputs)) (drop off (output_bytes dev' output))
         = concat (map (input_bytes dev) inputs)"
  using assms
proof (induction inputs arbitrary: dev off)
  case Nil
  show ?case by simp
next
  case (Cons t ts)
  let ?n = "4 * numel t"
  let ?S = "4 * sum_list (map numel ts)"
  from Cons.prems obtain st so where
    id: "tensor_id t \<noteq> tensor_id output"
    and st: "storages dev (tensor_id t) = Some st"
    and len: "?n \<le> length (tensor_data st)"
    and so: "storages dev (tensor_id output) = Some so"
    and room: "off + ?n + ?S \<le> length (buffer_bytes so)"
    by (auto simp: cat_ready_def output_bytes_def split: option.splits)
  define so2 where "so2 = so\<lparr>buffer_bytes :=
                 take off (buffer_bytes so) @ take ?n (tensor_data st)
                   @ drop (off + ?n) (buffer_bytes so)\<rparr>"
  define dev2 where "dev2 = dev\<lparr>storages := (storages dev)
            (tensor_id t \<mapsto> st\<lparr>buffer_bytes := tensor_data st, image_authoritative := False\<rparr>,
             tensor_id output \<mapsto> so2),
          actions := actions dev @ [SyncImageToBuffer (tensor_id t),
             CopyBufferToBuffer (tensor_id t) (tensor_id output) ?n 0 off]\<rparr>"
  have step: "cat_step output t (dev, off) = Inr (dev2, off + ?n)"
    unfolding dev2_def so2_def using id st len so room
    by (intro cat_step_effect) simp_all
  have out2: "output_bytes dev2 output =
      take off (buffer_bytes so) @ take ?n (tensor_data st) @ drop (off + ?n) (buffer_bytes so)"
    by (simp add: output_bytes_def dev2_def so2_def)
  have out0: "output_bytes dev output = buffer_bytes so"
    by (simp add: output_bytes_def so)
  have len2: "length (output_bytes dev2 output) = length (buffer_bytes so)"
    unfolding out2 using room len by simp
  have same: "input_bytes dev2 u = input_bytes dev u"
    if "tensor_id u \<noteq> tensor_id output" for u
    using that st by (simp add: input_bytes_def dev2_def)
  have ready2: "cat_ready dev2 output ts (off + ?n + ?S)"
    unfolding cat_ready_def
  proof (intro conjI ballI)
    fix u assume u: "u \<in> set ts"
    with Cons.prems have uid: "tensor_id u \<noteq> tensor_id output"
      and ust: "case storages dev (tensor_id u) of
             Some st \<Rightarrow> 4 * numel u \<le> length (tensor_data st) | None \<Rightarrow> False"
      by (simp_all add: cat_ready_def)
    show "tensor_id u \<noteq> tensor_id output" by (rule uid)
    show "case storages dev2 (tensor_id u) of
             Some st \<Rightarrow> 4 * numel u \<le> length (tensor_data st) | None \<Rightarrow> False"
      using uid ust st by (auto simp: dev2_def)
  next
    show "off + ?n + ?S \<le> length (output_bytes dev2 output)"
      unfolding len2 by (rule room)
    show "storages dev2 (tensor_id output) \<noteq> None"
      by (simp add: dev2_def)
  qed
  from Cons.IH[OF ready2] obtain dev' where
    run: "for_each (cat_step output) ts (dev2, off + ?n) = Inr (dev', off + ?n + ?S)"
    and act: "actions dev' = actions dev2 @ cat_actions (tensor_id output) ts (off + ?n)"
    and len': "length (output_bytes dev' output) = length (output_bytes dev2 output)"
    and pre: "take (off + ?n) (output_bytes dev' output) = take (off + ?n) (output_bytes dev2 output)"
    and dat: "take ?S (drop (off + ?n) (output_bytes dev' output))
               = concat (map (input_bytes dev2) ts)"
    by blast
  have off_le: "off \<le> length (buffer_bytes so)" using room by simp
  have pre2: "take (off + ?n) (output_bytes dev2 output)
               = take off (buffer_bytes so) @ take ?n (tensor_data st)"
    unfolding out2 using off_le len by simp
  have head: "take off (output_bytes dev' output) = take off (buffer_bytes so)"
  proof -
    have "take off (output_bytes dev' output) = take off (take (off + ?n) (output_bytes dev' output))"
      by (simp add: min_def)
    also have "\<dots> = take off (take off (buffer_bytes so) @ take ?n (tensor_data st))"
      unfolding pre pre2 ..
    also have "\<dots> = take off (buffer_bytes so)"
      using off_le by simp
    finally show ?thesis .
  qed
  have mid: "take ?n (drop off (output_bytes dev' output)) = input_bytes dev t"
  proof -
    have "take ?n (drop off (output_bytes dev' output))
        = drop off (take (off + ?n) (output_bytes dev' output))"
      by (simp add: drop_take add.commute)
    also have "\<dots> = drop off (take off (buffer_bytes so) @ take ?n (tensor_data st))"
      unfolding pre pre2 ..
    also have "\<dots> = take ?n (tensor_data st)"
      using off_le by simp
    finally show ?thesis by (simp add: input_bytes_def st)
  qed
  have rest: "concat (map (input_bytes dev2) ts) = concat (map (input_bytes dev) ts)"
  proof -
    have "map (input_bytes dev2) ts = map (input_bytes dev) ts"
    proof (rule map_cong[OF refl])
      fix u assume "u \<in> set ts"
      with Cons.prems have "tensor_id u \<noteq> tensor_id output" by (simp add: cat_ready_def)
      then show "input_bytes dev2 u = input_bytes dev u" by (rule same)
    qed
    then show ?thesis by (rule arg_cong)
  qed
  have data: "take (?n + ?S) (drop off (output_bytes dev' output))
       = input_bytes dev t @ concat (map (input_bytes dev) ts)"
  proof -
    have "take (?n + ?S) (drop off (output_bytes dev' output))
        = take ?n (drop off (output_bytes dev' output))
          @ take ?S (drop ?n (drop off (output_bytes dev' output)))"
      by (rule take_add)
    also have "drop ?n (drop off (output_bytes dev' output)) = drop (off + ?n) (output_bytes dev' output)"
      by (simp add: add.commute)
    finally show ?thesis by (simp only: mid dat rest)
  qed
  show ?case
  proof (intro exI[of _ dev'] conjI)
    show "for_each (cat_step output) (t # ts) (dev, off)
            = Inr (dev', off + 4 * sum_list (map numel (t # ts)))"
      using step run by (simp add: algebra_simps)
    show "actions dev' = actions dev @ cat_actions (tensor_id output) (t # ts) off"
      unfolding act by (simp add: dev2_def)
    show "length (output_bytes dev' output) = length (output_bytes dev output)"
      unfolding len' len2 out0 ..
    show "take off (output_bytes dev' output) = take off (output_bytes dev output)"
      unfolding head out0 ..
    show "take (4 * sum_list (map numel (t # ts))) (drop off (output_bytes dev' output))
            = concat (map (input_bytes dev) (t # ts))"
      using data by (simp add: algebra_simps)
  qed
qed


lemma copy_offsets_cat_actions_ge:
  "x \<in> set (copy_offsets (cat_actions out ts off)) \<Longrightarrow> off \<le> x"
proof (induction ts arbitrary: off)
  case Nil
  then show ?case by simp
next
  case (Cons t ts)
  then show ?case by (fastforce dest: Cons.IH)
qed

lemma copy_offsets_cat_actions_sorted:
  "sorted (copy_offsets (cat_actions out ts off))"
proof (induction ts arbitrary: off)
  case Nil
  show ?case by simp
next
  case (Cons t ts)
  have "off \<le> x" if "x \<in> set (copy_offsets (cat_actions out ts (off + 4 * numel t)))" for x
    using copy_offsets_cat_actions_ge[OF that] by simp
  then show ?case using Cons.IH by simp
qed

lemma copy_offsets_cat_actions_strict:
  "\<forall>t \<in> set ts. 0 < numel t \<Longrightarrow> sorted_wrt (<) (copy_offsets (cat_actions out ts off))"
proof (induction ts arbitrary: off)
  case Nil
  show ?case by simp
next
  case (Cons t ts)
  have "off < x" if "x \<in> set (copy_offsets (cat_actions out ts (off + 4 * numel t)))" for x
    using copy_offsets_cat_actions_ge[OF that] Cons.prems by simp
  then show ?case using Cons.IH Cons.prems by simp
qed

section \<open>Proofs: the claims about cat\<close>

text \<open>
  Claim C8, as stated, at a first input without elements: the two copies have the same
  destination offset \<open>0\<close>, so the offsets are not strictly increasing.
\<close>

theorem cat_offsets_counterexample:
  "map_sum id (copy_offsets \<circ> actions \<circ> snd)
     (cat (new_tensor 0 [1]) [new_tensor 1 [0], new_tensor 2 [1]] 0
        \<lparr>storages = [0 \<mapsto> \<lparr>buffer_bytes = [0, 0, 0, 0], image_bytes = [], image_authoritative = False\<rparr>,
                       1 \<mapsto> \<lparr>buffer_bytes = [], image_bytes = [], image_authoritative = False\<rparr>,
                       2 \<mapsto> \<lparr>buffer_bytes = [1, 2, 3, 4], image_bytes = [], image_authoritative = False\<rparr>],
           next_tensor_id = 3, actions = []\<rparr>)
     = Inr [0, 0]"
  by (simp add: cat_def cat_step_def sync_image_to_buffer_def copy_buffer_to_buffer_def
        bind_result_def TORCH_INTERNAL_ASSERT_def new_tensor_def numel_def tensor_data_def)

text \<open>
  Claim C8, amended. On a device where every input has storage holding its data, no
  input shares the storage of the output and the output buffer has room, \<open>cat\<close>
  resynchronizes each input to its buffer form and then copies it, one copy per input,
  each at the offset of the one before advanced by \<open>sizeof(float) * numel\<close> of that
  input. The offsets never decrease, and increase strictly when no input is empty. The
  output buffer then starts with the data of the inputs one after the other: for inputs
  \<open>a\<close> then \<open>b\<close>, bytes \<open>[0, sizeof(a))\<close> are the data of \<open>a\<close> and bytes
  \<open>[sizeof(a), sizeof(a) + sizeof(b))\<close> the data of \<open>b\<close>.
\<close>

theorem cat_copies_inputs_in_order:
  assumes "cat_ready dev output inputs (4 * sum_list (map numel inputs))"
  shows "\<exists>dev'. cat output inputs dim0 dev = Inr (output, dev')
     \<and> actions dev' = actions dev @ cat_actions (tensor_id output) inputs 0
     \<and> sorted (copy_offsets (cat_actions (tensor_id output) inputs 0))
     \<and> ((\<forall>t \<in> set inputs. 0 < numel t) \<longrightarrow>
          sorted_wrt (<) (copy_offsets (cat_actions (tensor_id output) inputs 0)))
     \<and> take (4 * sum_list (map numel inputs)) (output_bytes dev' output)
         = concat (map (input_bytes dev) inputs)
     \<and> (\<forall>a b. inputs = [a, b] \<longrightarrow>
          take (4 * numel a) (output_bytes dev' output) = input_bytes dev a
          \<and> take (4 * numel b) (drop (4 * numel a) (output_bytes dev' output))
              = input_bytes dev b)"
proof -
  from assms have "cat_ready dev output inputs (0 + 4 * sum_list (map numel inputs))" by simp
  from cat_loop[OF this] obtain dev' where
    run: "for_each (cat_step output) inputs (dev, 0)
            = Inr (dev', 0 + 4 * sum_list (map numel inputs))"
    and act: "actions dev' = actions dev @ cat_actions (tensor_id output) inputs 0"
    and dat: "take (4 * sum_list (map numel inputs)) (drop 0 (output_bytes dev' output))
               = concat (map (input_bytes dev) inputs)"
    by blast
  have two: "take (4 * numel a) (output_bytes dev' output) = input_bytes dev a
      \<and> take (4 * numel b) (drop (4 * numel a) (output_bytes dev' output)) = input_bytes dev b"
    if ab: "inputs = [a, b]" for a b
  proof -
    have la: "length (input_bytes dev a) = 4 * numel a"
      using assms by (auto simp: ab cat_ready_def input_bytes_def split: option.splits)
    have cat2: "take (4 * numel a + 4 * numel b) (output_bytes dev' output)
        = input_bytes dev a @ input_bytes dev b"
      using dat by (simp add: ab algebra_simps)
    have "take (4 * numel a) (output_bytes dev' output)
        = take (4 * numel a) (take (4 * numel a + 4 * numel b) (output_bytes dev' output))"
      by (simp add: min_def)
    also have "\<dots> = input_bytes dev a" unfolding cat2 using la by simp
    finally have first: "take (4 * numel a) (output_bytes dev' output) = input_bytes dev a" .
    have "take (4 * numel b) (drop (4 * numel a) (output_bytes dev' output))
        = drop (4 * numel a) (take (4 * numel a + 4 * numel b) (output_bytes dev' output))"
      by (simp add: drop_take add.commute)
    also have "\<dots> = input_bytes dev b" unfolding cat2 using la by simp
    finally show ?thesis using first by simp
  qed
  show ?thesis
  proof (intro exI[of _ dev'] conjI allI impI)
    show "cat output inputs dim0 dev = Inr (output, dev')"
      using run by (simp add: cat_def bind_result_def)
    show "actions dev' = actions dev @ cat_actions (tensor_id output) inputs 0" by (rule act)
    show "sorted (copy_offsets (cat_actions (tensor_id output) inputs 0))"
      by (rule copy_offsets_cat_actions_sorted)
    show "sorted_wrt (<) (copy_offsets (cat_actions (tensor_id output) inputs 0))"
      if "\<forall>t \<in> set inputs. 0 < numel t"
      using that by (rule copy_offsets_cat_actions_strict)
    show "take (4 * sum_list (map numel inputs)) (output_bytes dev' output)
            = concat (map (input_bytes dev) inputs)"
      using dat by simp
    show "take (4 * numel a) (output_bytes dev' output) = input_bytes dev a"
      if "inputs = [a, b]" for a b using two[OF that] by simp
    show "take (4 * numel b) (drop (4 * numel a) (output_bytes dev' output)) = input_bytes dev b"
      if "inputs = [a, b]" for a b using two[OF that] by simp
  qed
qed

theorem cat_copies_inputs_in_order_witness:
  "\<exists>dev'. cat (new_tensor 0 [2]) [new_tensor 1 [1], new_tensor 2 [1]] 0
        \<lparr>storages = [0 \<mapsto> \<lparr>buffer_bytes = [0, 0, 0, 0, 0, 0, 0, 0], image_bytes = [], image_authoritative = False\<rparr>,
                       1 \<mapsto> \<lparr>buffer_bytes = [9, 9, 9, 9], image_bytes = [5, 6, 7, 8], image_authoritative = True\<rparr>,
                       2 \<mapsto> \<lparr>buffer_bytes = [1, 2, 3, 4], image_bytes = [], image_authoritative = False\<rparr>],
           next_tensor_id = 3, actions = []\<rparr> = Inr (new_tensor 0 [2], dev')
     \<and> actions dev' = [SyncImageToBuffer 1, CopyBufferToBuffer 1 0 4 0 0,
                        SyncImageToBuffer 2, CopyBufferToBuffer 2 0 4 0 4]
     \<and> take 8 (output_bytes dev' (new_tensor 0 [2])) = [5, 6, 7, 8, 1, 2, 3, 4]"
proof -
  have "cat_ready \<lparr>storages = [0 \<mapsto> \<lparr>buffer_bytes = [0, 0, 0, 0, 0, 0, 0, 0], image_bytes = [], image_authoritative = False\<rparr>,
                       1 \<mapsto> \<lparr>buffer_bytes = [9, 9, 9, 9], image_bytes = [5, 6, 7, 8], image_authoritative = True\<rparr>,
                       2 \<mapsto> \<lparr>buffer_bytes = [1, 2, 3, 4], image_bytes = [], image_authoritative = False\<rparr>],
           next_tensor_id = 3, actions = []\<rparr> (new_tensor 0 [2]) [new_tensor 1 [1], new_tensor 2 [1]]
          (4 * sum_list (map numel [new_tensor 1 [1], new_tensor 2 [1]]))"
    by (simp add: cat_ready_def new_tensor_def numel_def tensor_data_def output_bytes_def)
  from cat_copies_inputs_in_order[OF this, of 0] obtain dev' where
    r: "cat (new_tensor 0 [2]) [new_tensor 1 [1], new_tensor 2 [1]] 0
          \<lparr>storages = [0 \<mapsto> \<lparr>buffer_bytes = [0, 0, 0, 0, 0, 0, 0, 0], image_bytes = [], image_authoritative = False\<rparr>,
                       1 \<mapsto> \<lparr>buffer_bytes = [9, 9, 9, 9], image_bytes = [5, 6, 7, 8], image_authoritative = True\<rparr>,
                       2 \<mapsto> \<lparr>buffer_bytes = [1, 2, 3, 4], image_bytes = [], image_authoritative = False\<rparr>],
           next_tensor_id = 3, actions = []\<rparr> = Inr (new_tensor 0 [2], dev')"
    and a: "actions dev' = actions \<lparr>storages = [0 \<mapsto> \<lparr>buffer_bytes = [0, 0, 0, 0, 0, 0, 0, 0], image_bytes = [], image_authoritative = False\<rparr>,
                       1 \<mapsto> \<lparr>buffer_bytes = [9, 9, 9, 9], image_bytes = [5, 6, 7, 8], image_authoritative = True\<rparr>,
                       2 \<mapsto> \<lparr>buffer_bytes = [1, 2, 3, 4], image_bytes = [], image_authoritative = False\<rparr>],
           next_tensor_id = 3, actions = []\<rparr>
          @ cat_actions (tensor_id (new_tensor 0 [2])) [new_tensor 1 [1], new_tensor 2 [1]] 0"
    and d: "take (4 * sum_list (map numel [new_tensor 1 [1], new_tensor 2 [1]]))
             (output_bytes dev' (new_tensor 0 [2]))
           = concat (map (input_bytes \<lparr>storages = [0 \<mapsto> \<lparr>buffer_bytes = [0, 0, 0, 0, 0, 0, 0, 0], image_bytes = [], image_authoritative = False\<rparr>,
                       1 \<mapsto> \<lparr>buffer_bytes = [9, 9, 9, 9], image_bytes = [5, 6, 7, 8], image_authoritative = True\<rparr>,
                       2 \<mapsto> \<lparr>buffer_bytes = [1, 2, 3, 4], image_bytes = [], image_authoritative = False\<rparr>],
           next_tensor_id = 3, actions = []\<rparr>) [new_tensor 1 [1], new_tensor 2 [1]])"
    by blast
  show ?thesis
    using r a d
    by (simp add: new_tensor_def numel_def input_bytes_def tensor_data_def)
qed

text \<open>
  Claim C9. \<open>cat\<close> does not look at \<open>dim\<close>: two calls that differ in \<open>dim\<close> alone
  have the same result, failures included, and the result is that of the pass over the
  inputs, which checks nothing about an axis.
\<close>

theorem cat_independent_of_dim:
  "cat output inputs dim1 dev = cat output inputs dim2 dev
   \<and> cat output inputs dim1 dev =
       (case for_each (cat_step output) inputs (dev, 0) of
          Inl e \<Rightarrow> Inl e
        | Inr st \<Rightarrow> Inr (output, fst st))"
  by (simp add: cat_def bind_result_def)


section \<open>Proofs: reshape_copy\<close>

lemma reshape_copy_effect:
  assumes st: "storages dev (tensor_id input) = Some st"
    and len: "length (tensor_data st) = 4 * numel input"
    and fresh: "tensor_id input < next_tensor_id dev"
    and prod: "prod_list shape = numel input"
    and small: "numel input < 2 ^ 31"
  shows "\<exists>dev'. reshape_copy input shape dev = Inr (new_tensor (next_tensor_id dev) shape, dev')
     \<and> next_tensor_id dev' = Suc (next_tensor_id dev)
     \<and> storages dev' (next_tensor_id dev)
         = Some \<lparr>buffer_bytes = tensor_data st, image_bytes = [], image_authoritative = False\<rparr>
     \<and> actions dev' = actions dev
         @ [SyncImageToBuffer (tensor_id input),
            AllocateStorage (next_tensor_id dev) (4 * numel input),
            CopyBufferToBuffer (tensor_id input) (next_tensor_id dev) (4 * numel input) 0 0]"
proof -
  have acc: "accumulate_int shape 1 = int (numel input)"
    unfolding accumulate_int_prod prod using small by (intro to_int32_small) simp_all
  have ne: "tensor_id input \<noteq> next_tensor_id dev" using fresh by simp
  show ?thesis
    using st len ne prod
    by (simp add: reshape_copy_def acc TORCH_INTERNAL_ASSERT_def bind_result_def
          sync_image_to_buffer_def allocate_storage_def copy_buffer_to_buffer_def
          new_tensor_def numel_def Let_def)
qed

lemma reshape_copy_assert:
  "accumulate_int shape 1 \<noteq> int (numel input) \<Longrightarrow>
     reshape_copy input shape dev =
       Inl (InternalAssert ''shapeNumel == input.numel()''
              ''reshape_copy expects shape with equal number of elements with input Vulkan tensor'')"
  by (simp add: reshape_copy_def TORCH_INTERNAL_ASSERT_def)

lemma reshape_copy_round_trip:
  assumes st: "storages dev (tensor_id input) = Some st"
    and len: "length (tensor_data st) = 4 * numel input"
    and fresh: "tensor_id input < next_tensor_id dev"
    and prod: "prod_list shape = numel input"
    and small: "numel input < 2 ^ 31"
  shows "\<exists>out1 dev1 out2 dev2.
       reshape_copy input shape dev = Inr (out1, dev1)
     \<and> reshape_copy out1 (sizes input) dev1 = Inr (out2, dev2)
     \<and> sizes out1 = shape \<and> output_bytes dev1 out1 = tensor_data st
     \<and> sizes out2 = sizes input \<and> output_bytes dev2 out2 = tensor_data st"
proof -
  let ?n = "next_tensor_id dev"
  from reshape_copy_effect[OF assms] obtain dev1 where
    r1: "reshape_copy input shape dev = Inr (new_tensor ?n shape, dev1)"
    and n1: "next_tensor_id dev1 = Suc ?n"
    and s1: "storages dev1 ?n
         = Some \<lparr>buffer_bytes = tensor_data st, image_bytes = [], image_authoritative = False\<rparr>"
    by blast
  let ?st1 = "\<lparr>buffer_bytes = tensor_data st, image_bytes = [], image_authoritative = False\<rparr>"
  let ?out1 = "new_tensor ?n shape"
  have d1: "tensor_data ?st1 = tensor_data st" by (simp add: tensor_data_def)
  have "\<exists>dev2. reshape_copy ?out1 (sizes input) dev1
          = Inr (new_tensor (next_tensor_id dev1) (sizes input), dev2)
     \<and> next_tensor_id dev2 = Suc (next_tensor_id dev1)
     \<and> storages dev2 (next_tensor_id dev1)
         = Some \<lparr>buffer_bytes = tensor_data ?st1, image_bytes = [], image_authoritative = False\<rparr>
     \<and> actions dev2 = actions dev1
         @ [SyncImageToBuffer (tensor_id ?out1),
            AllocateStorage (next_tensor_id dev1) (4 * numel ?out1),
            CopyBufferToBuffer (tensor_id ?out1) (next_tensor_id dev1) (4 * numel ?out1) 0 0]"
  proof (rule reshape_copy_effect)
    show "storages dev1 (tensor_id ?out1) = Some ?st1" using s1 by (simp add: new_tensor_def)
    show "length (tensor_data ?st1) = 4 * numel ?out1"
      unfolding d1 len using prod by (simp add: new_tensor_def numel_def)
    show "tensor_id ?out1 < next_tensor_id dev1" unfolding n1 by (simp add: new_tensor_def)
    show "prod_list (sizes input) = numel ?out1"
      using prod by (simp add: new_tensor_def numel_def)
    show "numel ?out1 < 2 ^ 31" using small prod by (simp add: new_tensor_def numel_def)
  qed
  then obtain dev2 where
    r2: "reshape_copy ?out1 (sizes input) dev1 = Inr (new_tensor (Suc ?n) (sizes input), dev2)"
    and s2: "storages dev2 (Suc ?n)
         = Some \<lparr>buffer_bytes = tensor_data st, image_bytes = [], image_authoritative = False\<rparr>"
    unfolding n1 d1 by blast
  show ?thesis
  proof (rule exI[of _ "?out1"], rule exI[of _ dev1],
      rule exI[of _ "new_tensor (Suc ?n) (sizes input)"], rule exI[of _ dev2], intro conjI)
    show "reshape_copy input shape dev = Inr (new_tensor ?n shape, dev1)" by (rule r1)
    show "reshape_copy ?out1 (sizes input) dev1 = Inr (new_tensor (Suc ?n) (sizes input), dev2)"
      by (rule r2)
    show "sizes ?out1 = shape" by (simp add: new_tensor_def)
    show "output_bytes dev1 ?out1 = tensor_data st"
      by (simp add: output_bytes_def new_tensor_def s1)
    show "sizes (new_tensor (Suc ?n) (sizes input)) = sizes input" by (simp add: new_tensor_def)
    show "output_bytes dev2 (new_tensor (Suc ?n) (sizes input)) = tensor_data st"
      by (simp add: output_bytes_def new_tensor_def s2)
  qed
qed

text \<open>
  Claim C7 at a shape whose element count does not fit an \<open>int\<close>: the input has one
  element, the requested shape has \<open>2^32 + 1\<close>, and \<open>shapeNumel\<close>, accumulated in an
  \<open>int\<close>, is \<open>1\<close>. The assertion passes and the call returns a tensor of the requested
  shape.
\<close>

theorem reshape_copy_assert_wraps:
  "numel (new_tensor 0 [1]) = 1
   \<and> prod_list [4294967297 :: nat] = 4294967297
   \<and> accumulate_int [4294967297] 1 = 1
   \<and> map_sum id (sizes \<circ> fst)
       (reshape_copy (new_tensor 0 [1]) [4294967297]
          \<lparr>storages = [0 \<mapsto> \<lparr>buffer_bytes = [1, 2, 3, 4], image_bytes = [],
                                image_authoritative = False\<rparr>],
           next_tensor_id = 1, actions = []\<rparr>)
     = Inr [4294967297]"
  by (simp add: reshape_copy_def accumulate_int_def to_int32_def TORCH_INTERNAL_ASSERT_def
        bind_result_def sync_image_to_buffer_def allocate_storage_def copy_buffer_to_buffer_def
        new_tensor_def numel_def tensor_data_def Let_def)


section \<open>Proofs: binding order\<close>

text \<open>
  Claim C4, as stated, at \<open>addmm\<close> with the optional term \<open>t\<close>: the constant block is
  bound at index 3 and the image of \<open>t\<close>, the first input in argument order, at the last
  index 4.
\<close>

theorem binding_order_counterexample:
  "map_sum id descriptorSet
     (addmm (new_tensor 0 [2, 2]) (Some (new_tensor 3 [2, 2])) (new_tensor 1 [2, 3])
        (new_tensor 2 [3, 2]) 5 7)
     = Inr [(0, BindStorageImage (image_of (new_tensor 0 [2, 2]))),
            (1, BindShaderRead (image_of (new_tensor 1 [2, 3]))),
            (2, BindShaderRead (image_of (new_tensor 2 [3, 2]))),
            (3, BindBuffer (UniformConstBuffer [2, 2, 1, 1, 5, 7, 3])),
            (4, BindShaderRead (image_of (new_tensor 3 [2, 2])))]
   \<and> map_sum id
       (binding_contract
          (Addmm (new_tensor 0 [2, 2]) (Some (new_tensor 3 [2, 2])) (new_tensor 1 [2, 3])
             (new_tensor 2 [3, 2]) 5 7) \<circ> descriptorSet)
       (record_dispatch
          (Addmm (new_tensor 0 [2, 2]) (Some (new_tensor 3 [2, 2])) (new_tensor 1 [2, 3])
             (new_tensor 2 [3, 2]) 5 7))
     = Inr False"
  by (simp add: addmm_def TORCH_INTERNAL_ASSERT_def new_tensor_def u32_def UP_DIV_def i32_def
        makeUniformConstBuffer_def binding_contract_def Let_def)


lemma upt_4: "[0..<4] = [0, 1, 2, 3]"
  by (simp add: eval_nat_numeral)

lemma upt_5: "[0..<5] = [0, 1, 2, 3, 4]"
  by (simp add: eval_nat_numeral)

lemma pooling_contract:
  "upsample_nearest2d output input IH IW OH OW N0 C0 scaleH scaleW = Inr u \<Longrightarrow>
     binding_contract (Upsample_nearest2d output input IH IW OH OW N0 C0 scaleH scaleW)
       (descriptorSet u)"
  "adaptive_avg_pool2d output input IH IW OH OW N0 C0 = Inr u \<Longrightarrow>
     binding_contract (Adaptive_avg_pool2d output input IH IW OH OW N0 C0) (descriptorSet u)"
  "max_pool2d output input a = Inr u \<Longrightarrow>
     binding_contract (Max_pool2d output input a) (descriptorSet u)"
  by (auto simp: upsample_nearest2d_def adaptive_avg_pool2d_def max_pool2d_def
        binding_contract_def makeUniformConstBuffer_def Let_def)

lemma add_contract:
  "add output input0 input1 alpha = Inr u \<Longrightarrow>
     binding_contract (Add output input0 input1 alpha) (descriptorSet u)"
  by (auto simp: add_def TORCH_INTERNAL_ASSERT_def binding_contract_def
        makeUniformConstBuffer_def Let_def split: if_splits)

lemma scalar_op_contract:
  "scalar_op name output input s = Inr u \<Longrightarrow>
     op_output c = BindStorageImage (image_of output) \<Longrightarrow>
     op_inputs c = [BindShaderRead (image_of input)] \<Longrightarrow> op_auxiliary c = [] \<Longrightarrow>
     binding_contract c (descriptorSet u)"
  by (auto simp: scalar_op_def bind_result_def size_at_def makeUniformConstBuffer_def
        binding_contract_def Let_def split: if_splits)

lemma scalar_ops_contract:
  "add_scalar output input s = Inr u \<Longrightarrow>
     binding_contract (Add_scalar output input s) (descriptorSet u)"
  "mul output input s = Inr u \<Longrightarrow>
     binding_contract (Mul output input s) (descriptorSet u)"
  unfolding add_scalar_def mul_def by (erule scalar_op_contract; simp)+

lemma clamp_contract:
  "clamp output input lo hi = Inr u \<Longrightarrow>
     binding_contract (Clamp output input lo hi) (descriptorSet u)"
  by (auto simp: clamp_def bind_result_def size_at_def binding_contract_def
        makeUniformConstBuffer_def Let_def split: if_splits)

lemma mean_contract:
  "mean output input = Inr u \<Longrightarrow> binding_contract (Mean output input) (descriptorSet u)"
  by (auto simp: mean_def bind_result_def size_at_def binding_contract_def
        makeUniformConstBuffer_def Let_def split: if_splits)

lemma conv2d_depthwise_contract:
  "conv2d_depthwise output input weight biasBuffer params lo hi = Inr u \<Longrightarrow>
     binding_contract (Conv2d_depthwise output input weight biasBuffer params lo hi)
       (descriptorSet u)"
  by (auto simp: conv2d_depthwise_def TORCH_INTERNAL_ASSERT_def bind_result_def size_at_def
        binding_contract_def makeUniformConstBuffer_def upt_5 Let_def split: if_splits)

lemma conv2d_contract:
  "conv2d_image_buffer output input kernelImage biasBuffer params lo hi = Inr u \<Longrightarrow>
     binding_contract (Conv2d output input kernelImage biasBuffer params lo hi)
       (descriptorSet u)"
  by (auto simp: conv2d_image_buffer_def TORCH_INTERNAL_ASSERT_def bind_result_def size_at_def
        binding_contract_def makeUniformConstBuffer_def upt_5 Let_def split: if_splits)

lemma prepack_contract:
  "conv2d_prepack_weights_to_image ctx image0 weight OC C KH KW = Inr u \<Longrightarrow>
     binding_contract (Conv2d_prepack_weights_to_image ctx image0 weight OC C KH KW)
       (descriptorSet u)"
  by (auto simp: conv2d_prepack_weights_to_image_def TORCH_INTERNAL_ASSERT_def bind_result_def
        binding_contract_def makeUniformConstBuffer_def Let_def split: if_splits sum.splits)

lemma mm_contract:
  "addmm output None m1 m2 beta alpha = Inr u \<Longrightarrow>
     binding_contract (Addmm output None m1 m2 beta alpha) (descriptorSet u)"
  by (auto simp: addmm_def TORCH_INTERNAL_ASSERT_def binding_contract_def
        makeUniformConstBuffer_def upt_4 Let_def split: if_splits)

lemma addmm_bindings:
  "addmm output (Some t) m1 m2 beta alpha = Inr u \<Longrightarrow>
     \<exists>cb. descriptorSet u =
       [(0, BindStorageImage (image_of output)),
        (1, BindShaderRead (image_of m1)),
        (2, BindShaderRead (image_of m2)),
        (3, BindBuffer (UniformConstBuffer cb)),
        (4, BindShaderRead (image_of t))]"
  by (auto simp: addmm_def TORCH_INTERNAL_ASSERT_def makeUniformConstBuffer_def Let_def
        split: if_splits)


text \<open>
  Claim C4, amended. In the descriptor set of every operator binding index 0 holds the
  output; except for \<open>addmm\<close> with the optional term \<open>t\<close>, the following indices hold
  the inputs in argument order, then the auxiliary buffers (the bias), and the constant
  block is bound at the last index. \<open>addmm\<close> with \<open>t\<close> binds \<open>m1\<close> and \<open>m2\<close> at
  indices 1 and 2, the constant block at index 3 and \<open>t\<close> at the last index 4.
\<close>

theorem binding_order:
  "record_dispatch c = Inr u \<Longrightarrow>
     snd (descriptorSet u ! 0) = op_output c
     \<and> (if addmm_with_t c
         then \<exists>output t m1 m2 beta alpha cb.
                c = Addmm output (Some t) m1 m2 beta alpha
                \<and> descriptorSet u =
                    [(0, BindStorageImage (image_of output)),
                     (1, BindShaderRead (image_of m1)),
                     (2, BindShaderRead (image_of m2)),
                     (3, BindBuffer (UniformConstBuffer cb)),
                     (4, BindShaderRead (image_of t))]
         else binding_contract c (descriptorSet u))"
proof -
  assume run: "record_dispatch c = Inr u"
  have first: "snd (ds ! 0) = op_output c" if "binding_contract c ds" for ds
  proof -
    from that have ne: "ds \<noteq> []"
      and bl: "butlast (map snd ds) = op_output c # op_inputs c @ op_auxiliary c"
      by (simp_all add: binding_contract_def)
    from bl have "butlast (map snd ds) ! 0 = op_output c" by simp
    moreover have "0 < length (butlast (map snd ds))" using bl by simp
    ultimately have "map snd ds ! 0 = op_output c" by (simp add: nth_butlast)
    with ne show ?thesis by simp
  qed
  have main: "if addmm_with_t c
         then \<exists>output t m1 m2 beta alpha cb.
                c = Addmm output (Some t) m1 m2 beta alpha
                \<and> descriptorSet u =
                    [(0, BindStorageImage (image_of output)),
                     (1, BindShaderRead (image_of m1)),
                     (2, BindShaderRead (image_of m2)),
                     (3, BindBuffer (UniformConstBuffer cb)),
                     (4, BindShaderRead (image_of t))]
         else binding_contract c (descriptorSet u)"
  proof (cases c)
    case (Addmm out0 t m1 m2 beta alpha)
    show ?thesis
    proof (cases t)
      case None
      with Addmm run show ?thesis by (simp add: mm_contract)
    next
      case (Some t0)
      with Addmm run addmm_bindings[of out0 t0 m1 m2 beta alpha u] show ?thesis by simp
    qed
  qed (use run in \<open>simp_all add: pooling_contract add_contract scalar_ops_contract
        clamp_contract mean_contract conv2d_depthwise_contract conv2d_contract
        prepack_contract\<close>)
  show ?thesis
  proof (cases "addmm_with_t c")
    case False
    with main first show ?thesis by simp
  next
    case True
    with main show ?thesis by auto
  qed
qed

theorem binding_order_witness:
  "(\<exists>u. record_dispatch
          (Add (new_tensor 0 [2, 2]) (new_tensor 1 [2, 2]) (new_tensor 2 [2, 2]) 5) = Inr u
       \<and> descriptorSet u =
           [(0, BindStorageImage (image_of (new_tensor 0 [2, 2]))),
            (1, BindShaderRead (image_of (new_tensor 1 [2, 2]))),
            (2, BindShaderRead (image_of (new_tensor 2 [2, 2]))),
            (3, BindBuffer (UniformConstBuffer [2, 2, 1, 5]))]
       \<and> binding_contract
           (Add (new_tensor 0 [2, 2]) (new_tensor 1 [2, 2]) (new_tensor 2 [2, 2]) 5)
           (descriptorSet u))
   \<and> (\<exists>u. record_dispatch
          (Addmm (new_tensor 0 [2, 2]) (Some (new_tensor 3 [2, 2])) (new_tensor 1 [2, 3])
             (new_tensor 2 [3, 2]) 5 7) = Inr u
       \<and> snd (descriptorSet u ! 0) = BindStorageImage (image_of (new_tensor 0 [2, 2]))
       \<and> snd (descriptorSet u ! 4) = BindShaderRead (image_of (new_tensor 3 [2, 2])))"
proof -
  let ?a = "Add (new_tensor 0 [2, 2]) (new_tensor 1 [2, 2]) (new_tensor 2 [2, 2]) 5"
  let ?m = "Addmm (new_tensor 0 [2, 2]) (Some (new_tensor 3 [2, 2])) (new_tensor 1 [2, 3])
             (new_tensor 2 [3, 2]) 5 7"
  obtain u where u: "record_dispatch ?a = Inr u"
    and du: "descriptorSet u =
           [(0, BindStorageImage (image_of (new_tensor 0 [2, 2]))),
            (1, BindShaderRead (image_of (new_tensor 1 [2, 2]))),
            (2, BindShaderRead (image_of (new_tensor 2 [2, 2]))),
            (3, BindBuffer (UniformConstBuffer [2, 2, 1, 5]))]"
    by (simp add: add_def TORCH_INTERNAL_ASSERT_def new_tensor_def dim_def pad4_def i32_def
          makeUniformConstBuffer_def Let_def eval_nat_numeral)
  obtain v where v: "record_dispatch ?m = Inr v"
    by (simp add: addmm_def TORCH_INTERNAL_ASSERT_def new_tensor_def u32_def Let_def)
  from binding_order[OF u] have cu: "binding_contract ?a (descriptorSet u)" by simp
  from binding_order[OF v] have cv:
    "snd (descriptorSet v ! 0) = BindStorageImage (image_of (new_tensor 0 [2, 2]))
     \<and> snd (descriptorSet v ! 4) = BindShaderRead (image_of (new_tensor 3 [2, 2]))"
    by auto
  from u du cu v cv show ?thesis by blast
qed

end
